(* ===== verification/Prelude.thy ===== *)
theory Prelude
  imports Main
begin

text \<open>
  Shared vocabulary of the fika-bff development (\<^verbatim>\<open>src/main.go\<close>).
  \<^item> \<open>'a go\<close>: the three ways a Go call can end: it returns a value (\<open>Ret\<close>), it
    terminates the whole process through \<^verbatim>\<open>log.Fatal\<close>/\<^verbatim>\<open>log.Fatalf\<close>
    (\<open>Fatal\<close>, tagged with the call site), or it panics (\<open>Panic\<close>; net/http recovers a
    panic of a handler goroutine and drops the connection, the process lives on).
  \<^item> \<open>go_bind\<close>: sequencing of Go statements, the first Fatal or Panic ends the sequence.
  \<^item> \<open>split_on\<close>/\<open>join_with\<close>: Go's \<^verbatim>\<open>strings.Split\<close> and \<^verbatim>\<open>strings.Join\<close>
    on a one-character separator, with both round trips.
  \<^item> the named collection \<open>go_simps\<close>, which the component theories extend with the
    evaluation equations of their operations.
\<close>

named_theorems go_simps "evaluation equations of the modelled Go operations"

section \<open>Outcomes of Go code\<close>

text \<open>The \<^verbatim>\<open>log.Fatal\<close> call sites of \<^verbatim>\<open>src/main.go\<close>, by line.\<close>

datatype fatal_site =
    FatalTokenParse    \<comment> \<open>line 68: \<^verbatim>\<open>log.Fatal\<close> after the first \<^verbatim>\<open>jwt.Parse\<close>\<close>
  | FatalKeyFetch      \<comment> \<open>line 76: \<^verbatim>\<open>log.Fatal\<close> after \<^verbatim>\<open>http.Get\<close> of the key set\<close>
  | FatalNoKey         \<comment> \<open>line 93: \<^verbatim>\<open>log.Fatalf(Unable to find appropriate key.)\<close>\<close>
  | FatalProxyDo       \<comment> \<open>line 167: \<^verbatim>\<open>log.Fatalf\<close> after \<^verbatim>\<open>client.Do\<close>\<close>
  | FatalListen        \<comment> \<open>line 43: \<^verbatim>\<open>log.Fatalf\<close> after \<^verbatim>\<open>http.ListenAndServe\<close>\<close>

datatype panic_kind =
    PanicIndexOutOfRange  \<comment> \<open>indexing an empty slice\<close>
  | PanicNilDeref         \<comment> \<open>dereferencing a nil pointer\<close>
  | PanicMuxConflict      \<comment> \<open>registering a ServeMux pattern twice\<close>

datatype 'a go = Ret 'a | Fatal fatal_site | Panic panic_kind

text \<open>
  The calls the program makes to the outside world, recorded in the order they are
  made: \<^verbatim>\<open>http.Get\<close> of a URL, \<^verbatim>\<open>executions.NewClient\<close>,
  \<^verbatim>\<open>client.CreateExecution(parent, argument)\<close>, \<^verbatim>\<open>idtoken.NewClient(audience)\<close>
  and \<^verbatim>\<open>client.Do\<close> of a GET request (URL and header entries).
\<close>

datatype ext_call =
    CallHttpGet string
  | CallExecNewClient
  | CallCreateExecution string string
  | CallIdtokenNewClient string
  | CallProxyDo string "string \<rightharpoonup> string list"

definition go_bind :: "'a go \<Rightarrow> ('a \<Rightarrow> 'b go) \<Rightarrow> 'b go" where
  "go_bind m f = (case m of Ret a \<Rightarrow> f a | Fatal s \<Rightarrow> Fatal s | Panic p \<Rightarrow> Panic p)"

section \<open>strings.Split and strings.Join on one separator\<close>

text \<open>
  \<^verbatim>\<open>strings.Split(s, sep)\<close> with a one-character separator: the pieces between the
  separators, always at least one (\<^verbatim>\<open>strings.Split("", ".")\<close> is \<^verbatim>\<open>[""]\<close>).
\<close>

fun split_on :: "'a \<Rightarrow> 'a list \<Rightarrow> 'a list list" where
  "split_on c [] = [[]]"
| "split_on c (x # xs) =
     (if x = c then [] # split_on c xs
      else (case split_on c xs of [] \<Rightarrow> [[x]] | p # ps \<Rightarrow> (x # p) # ps))"

fun join_with :: "'a \<Rightarrow> 'a list list \<Rightarrow> 'a list" where
  "join_with c [] = []"
| "join_with c [p] = p"
| "join_with c (p # q # ps) = p @ c # join_with c (q # ps)"

text \<open>The newline character, \<^verbatim>\<open>"\\n"\<close> in Go.\<close>

abbreviation nl :: string where
  "nl \<equiv> [CHR 0x0A]"

section \<open>Lemmas on Go outcomes\<close>

lemma go_bind_simps [simp, go_simps]:
  "go_bind (Ret a) f = f a"
  "go_bind (Fatal s) f = Fatal s"
  "go_bind (Panic p) f = Panic p"
  by (simp_all add: go_bind_def)

lemma go_bind_eq_Ret_conv:
  "go_bind m f = Ret b \<longleftrightarrow> (\<exists>a. m = Ret a \<and> f a = Ret b)"
  by (cases m) simp_all

section \<open>Lemmas on split and join\<close>

lemma split_on_not_Nil [simp]: "split_on c s \<noteq> []"
  by (induction s) (auto split: list.split)

lemma split_on_Cons_sep [simp]: "split_on c (c # xs) = [] # split_on c xs"
  by simp

lemma split_on_Cons_other [simp]:
  "x \<noteq> c \<Longrightarrow> split_on c (x # xs) = (x # hd (split_on c xs)) # tl (split_on c xs)"
  using split_on_not_Nil [of c xs] by (cases "split_on c xs") auto

declare split_on.simps(2) [simp del]

lemma split_on_pieces: "p \<in> set (split_on c s) \<Longrightarrow> c \<notin> set p"
proof (induction s arbitrary: p)
  case Nil
  then show ?case by simp
next
  case (Cons x xs)
  have hd: "hd (split_on c xs) \<in> set (split_on c xs)"
    by (rule hd_in_set) simp
  have tl: "q \<in> set (tl (split_on c xs)) \<Longrightarrow> q \<in> set (split_on c xs)" for q
    by (cases "split_on c xs") auto
  from Cons show ?case
    by (cases "x = c") (auto dest: tl Cons.IH intro: Cons.IH [OF hd])
qed

lemma join_with_Cons_hd:
  "ps \<noteq> [] \<Longrightarrow> join_with c ((x # hd ps) # tl ps) = x # join_with c ps"
  by (cases ps; cases "tl ps") auto

text \<open>Join after split gives the string back.\<close>

lemma join_split_on: "join_with c (split_on c s) = s"
proof (induction s)
  case Nil
  then show ?case by simp
next
  case (Cons x xs)
  show ?case
  proof (cases "x = c")
    case True
    with Cons.IH show ?thesis
      using split_on_not_Nil [of c xs] by (cases "split_on c xs") auto
  next
    case False
    with Cons.IH show ?thesis by (simp add: join_with_Cons_hd)
  qed
qed

text \<open>Split after join gives the pieces back, when no piece holds the separator.\<close>

lemma split_on_append_sep:
  "c \<notin> set p \<Longrightarrow> split_on c (p @ c # s) = p # split_on c s"
  by (induction p) auto

lemma split_on_no_sep: "c \<notin> set p \<Longrightarrow> split_on c p = [p]"
  by (induction p) auto

lemma split_join_with:
  "ps \<noteq> [] \<Longrightarrow> \<forall>p \<in> set ps. c \<notin> set p \<Longrightarrow> split_on c (join_with c ps) = ps"
  by (induction c ps rule: join_with.induct) (auto simp: split_on_append_sep split_on_no_sep)

lemma split_on_snoc_sep: "split_on c (s @ [c]) = split_on c s @ [[]]"
proof (induction s)
  case Nil
  then show ?case by simp
next
  case (Cons x xs)
  show ?case
  proof (cases "x = c")
    case True
    with Cons.IH show ?thesis by simp
  next
    case False
    have "split_on c xs \<noteq> []" by simp
    with False Cons.IH show ?thesis by (cases "split_on c xs") auto
  qed
qed

lemma join_with_last:
  "ps \<noteq> [] \<Longrightarrow> \<exists>pre. join_with c ps = pre @ last ps"
  by (induction c ps rule: join_with.induct) auto

lemma join_with_snoc_Nil:
  "xs \<noteq> [] \<Longrightarrow> join_with c (xs @ [[]]) = join_with c xs @ [c]"
  by (induction c xs rule: join_with.induct) simp_all

end
