(* ===== verification/Jwks.thy ===== *)
theory Jwks
  imports Prelude
begin

text \<open>
  The key-set data of \<^verbatim>\<open>src/main.go\<close> (types \<^verbatim>\<open>Jwks\<close> and
  \<^verbatim>\<open>JSONWebKeys\<close>, lines 47--59), the key-set fetch of \<^verbatim>\<open>verifyToken\<close>
  (lines 73--86) and its key-resolution loop with the empty-certificate check
  (lines 87--94). The token header is the decoded JSON object of jwt-go,
  a map from names to JSON values, and the key identifier is compared as Go compares an
  \<^verbatim>\<open>interface{}\<close> with a \<^verbatim>\<open>string\<close>.
  Lemmas: the exact result of the loop (the last matching record wins, a matching record
  with no certificate panics), the abstract first-match resolver of the key-directory
  contract and the refinement of it by the code when key identifiers are unique, the
  injectivity of the PEM wrapping, and that a decode failure of the key set is ignored.
\<close>

section \<open>JSON values and the token header\<close>

text \<open>
  \<^verbatim>\<open>json.Unmarshal\<close> into \<^verbatim>\<open>map[string]interface{}\<close> yields strings,
  numbers, booleans, null, arrays and objects; only strings matter to the code, the
  others are kept apart so that a non-string \<^verbatim>\<open>kid\<close> can be stated.
\<close>

datatype jval = JStr string | JNum int | JBool bool | JNull | JComposite

type_synonym jwt_header = "string \<rightharpoonup> jval"

text \<open>
  \<^verbatim>\<open>token.Header["kid"] == s\<close> for a Go string \<open>s\<close>: a missing entry is the nil
  interface and never equal; an entry of another dynamic type is never equal.
\<close>

fun iface_eq_str :: "jval option \<Rightarrow> string \<Rightarrow> bool" where
  "iface_eq_str (Some (JStr v)) s = (v = s)"
| "iface_eq_str _ s = False"

section \<open>The key set\<close>

record json_web_key =
  jwk_kty :: string
  jwk_kid :: string
  jwk_use :: string
  jwk_n :: string
  jwk_e :: string
  jwk_x5c :: "string list"
  jwk_x5t :: "string list"

record jwks =
  keys :: "json_web_key list"

definition DomainName :: string where
  "DomainName = ''dev-kjqwuq76z8suldgw.us.auth0.com''"

definition jwks_url :: string where
  "jwks_url = ''https://'' @ DomainName @ ''/.well-known/jwks.json''"

text \<open>
  The network and the JSON decoder are the environment: \<open>http_get\<close> is
  \<^verbatim>\<open>http.Get\<close> followed by reading the body (\<open>None\<close>: a transport error),
  \<open>decode_jwks\<close> is \<^verbatim>\<open>json.NewDecoder(..).Decode(&jwks)\<close>: the value
  decoded so far and whether decoding reported an error.
\<close>

record fetch_env =
  http_get :: "string \<Rightarrow> string option"
  decode_jwks :: "string \<Rightarrow> jwks \<times> bool"

text \<open>
  Lines 74--86: a transport error ends in \<^verbatim>\<open>log.Fatal\<close>; the decode error is
  assigned to \<^verbatim>\<open>err\<close> and never read (the \<^verbatim>\<open>return\<close> is commented out), so
  whatever was decoded is used.
\<close>

definition fetch_jwks :: "'e fetch_env_scheme \<Rightarrow> jwks go" where
  "fetch_jwks env =
     (case http_get env jwks_url of
        None \<Rightarrow> Fatal FatalKeyFetch
      | Some body \<Rightarrow> Ret (fst (decode_jwks env body)))"

section \<open>Resolving the certificate\<close>

definition pem_header :: string where
  "pem_header = ''-----BEGIN CERTIFICATE-----''"

definition pem_footer :: string where
  "pem_footer = ''-----END CERTIFICATE-----''"

text \<open>Line 89: the certificate text built from one chain entry.\<close>

definition pem_wrap :: "string \<Rightarrow> string" where
  "pem_wrap c = pem_header @ nl @ c @ nl @ pem_footer"

definition key_matches :: "jval option \<Rightarrow> json_web_key \<Rightarrow> bool" where
  "key_matches kid k = iface_eq_str kid (jwk_kid k)"

text \<open>
  Lines 87--91, the loop over \<^verbatim>\<open>jwks.Keys\<close> with \<^verbatim>\<open>cert\<close> as its state:
  every matching record overwrites \<^verbatim>\<open>cert\<close>, and \<^verbatim>\<open>X5c[0]\<close> on an empty
  chain is an index-out-of-range panic.
\<close>

fun resolve_loop :: "jval option \<Rightarrow> json_web_key list \<Rightarrow> string \<Rightarrow> string go" where
  "resolve_loop kid [] cert = Ret cert"
| "resolve_loop kid (k # ks) cert =
     (if key_matches kid k then
        (case jwk_x5c k of
           [] \<Rightarrow> Panic PanicIndexOutOfRange
         | c # _ \<Rightarrow> resolve_loop kid ks (pem_wrap c))
      else resolve_loop kid ks cert)"

text \<open>Lines 73 and 87--94: \<^verbatim>\<open>cert\<close> starts empty and an empty result is fatal.\<close>

definition resolve_cert :: "jval option \<Rightarrow> jwks \<Rightarrow> string go" where
  "resolve_cert kid ks =
     go_bind (resolve_loop kid (keys ks) '''')
       (\<lambda>cert. if cert = [] then Fatal FatalNoKey else Ret cert)"

section \<open>The key-directory contract\<close>

text \<open>
  What the resolver is meant to do: the first record whose identifier equals the
  token's, its first chain entry wrapped as PEM, and a key-not-found error when there is
  no such record or its chain is empty.
\<close>

datatype resolve_error = KeyNotFound

definition resolve_spec :: "jval option \<Rightarrow> json_web_key list \<Rightarrow> resolve_error + string" where
  "resolve_spec kid ks =
     (case find (key_matches kid) ks of
        None \<Rightarrow> Inl KeyNotFound
      | Some k \<Rightarrow> (case jwk_x5c k of [] \<Rightarrow> Inl KeyNotFound | c # _ \<Rightarrow> Inr (pem_wrap c)))"

text \<open>The chain entries of matching records with an empty chain, the panic condition.\<close>

definition empty_chain_match :: "jval option \<Rightarrow> json_web_key list \<Rightarrow> bool" where
  "empty_chain_match kid ks = (\<exists>k \<in> set ks. key_matches kid k \<and> jwk_x5c k = [])"

text \<open>
  Reading a resolver outcome as a contract result: a certificate is a result, the
  fatal no-key exit and the index panic are the key-not-found error; any other outcome
  does not occur in the resolver.
\<close>

fun abs_resolve :: "string go \<Rightarrow> resolve_error + string" where
  "abs_resolve (Ret p) = Inr p"
| "abs_resolve (Fatal s) = Inl KeyNotFound"
| "abs_resolve (Panic k) = Inl KeyNotFound"

section \<open>The key-set fetch\<close>

lemma fetch_jwks_body:
  "http_get env jwks_url = Some body \<Longrightarrow> fetch_jwks env = Ret (fst (decode_jwks env body))"
  by (simp add: fetch_jwks_def)

section \<open>The resolution loop\<close>

lemma pem_wrap_not_Nil [simp]: "pem_wrap c \<noteq> []"
  by (simp add: pem_wrap_def pem_header_def)

lemma empty_chain_match_simps [simp]:
  "\<not> empty_chain_match kid []"
  "empty_chain_match kid (k # ks) \<longleftrightarrow>
     (key_matches kid k \<and> jwk_x5c k = []) \<or> empty_chain_match kid ks"
  by (auto simp: empty_chain_match_def)

text \<open>
  The loop's result in closed form: a panic when some matching record has no
  certificate, otherwise the last matching record's first certificate, otherwise the
  initial value.
\<close>

lemma resolve_loop_eq:
  "resolve_loop kid ks cert =
     (if empty_chain_match kid ks then Panic PanicIndexOutOfRange
      else if filter (key_matches kid) ks = [] then Ret cert
      else Ret (pem_wrap (hd (jwk_x5c (last (filter (key_matches kid) ks))))))"
proof (induction ks arbitrary: cert)
  case Nil
  then show ?case by simp
next
  case (Cons k ks)
  show ?case
  proof (cases "key_matches kid k")
    case True
    then show ?thesis
      using Cons.IH by (cases "jwk_x5c k") auto
  next
    case False
    then show ?thesis using Cons.IH by simp
  qed
qed

lemma resolve_cert_eq:
  "resolve_cert kid ks =
     (if empty_chain_match kid (keys ks) then Panic PanicIndexOutOfRange
      else if filter (key_matches kid) (keys ks) = [] then Fatal FatalNoKey
      else Ret (pem_wrap (hd (jwk_x5c (last (filter (key_matches kid) (keys ks)))))))"
  by (simp add: resolve_cert_def resolve_loop_eq)

lemma find_None_filter: "find P xs = None \<longleftrightarrow> filter P xs = []"
  by (induction xs) auto

lemma find_Some_single_filter:
  "length (filter P xs) \<le> 1 \<Longrightarrow> find P xs = Some x \<Longrightarrow> filter P xs = [x]"
proof (induction xs)
  case Nil
  then show ?case by simp
next
  case (Cons y ys)
  then show ?case
    by (cases "P y") (auto simp: filter_empty_conv find_None_filter)
qed

lemma empty_chain_match_single:
  assumes "filter (key_matches kid) ks = [k]"
  shows "empty_chain_match kid ks \<longleftrightarrow> jwk_x5c k = []"
proof -
  have "{x \<in> set ks. key_matches kid x} = {k}"
    using arg_cong [OF assms, of set] by simp
  then have "\<forall>x. (x \<in> set ks \<and> key_matches kid x) \<longleftrightarrow> x = k"
    by (simp add: set_eq_iff)
  then show ?thesis unfolding empty_chain_match_def by metis
qed

section \<open>Properties of the resolver\<close>

text \<open>
  C18. Key resolution (lines 87--94): when some record matches the token's key
  identifier and every matching record has a certificate, the certificate used is the
  first chain entry of the \<^emph>\<open>last\<close> matching record, wrapped as PEM.
\<close>

theorem resolve_cert_last_match:
  assumes "filter (key_matches kid) (keys ks) = ms @ [k]"
    and "\<not> empty_chain_match kid (keys ks)"
  shows "resolve_cert kid ks = Ret (pem_wrap (hd (jwk_x5c k)))"
  using assms by (simp add: resolve_cert_eq)

theorem resolve_cert_last_match_witness:
  "resolve_cert (Some (JStr ''k1''))
     \<lparr>keys = [\<lparr>jwk_kty = ''RSA'', jwk_kid = ''k1'', jwk_use = ''sig'', jwk_n = [], jwk_e = [],
                jwk_x5c = [''AAA''], jwk_x5t = []\<rparr>,
              \<lparr>jwk_kty = ''RSA'', jwk_kid = ''k1'', jwk_use = ''sig'', jwk_n = [], jwk_e = [],
                jwk_x5c = [''BBB''], jwk_x5t = []\<rparr>]\<rparr>
   = Ret (pem_wrap ''BBB'')"
proof -
  let ?k1 = "\<lparr>jwk_kty = ''RSA'', jwk_kid = ''k1'', jwk_use = ''sig'', jwk_n = [], jwk_e = [],
     jwk_x5c = [''AAA''], jwk_x5t = []\<rparr>"
  let ?k2 = "\<lparr>jwk_kty = ''RSA'', jwk_kid = ''k1'', jwk_use = ''sig'', jwk_n = [], jwk_e = [],
     jwk_x5c = [''BBB''], jwk_x5t = []\<rparr>"
  have f: "filter (key_matches (Some (JStr ''k1''))) (keys \<lparr>keys = [?k1, ?k2]\<rparr>) = [?k1] @ [?k2]"
    by (simp add: key_matches_def)
  have e: "\<not> empty_chain_match (Some (JStr ''k1'')) (keys \<lparr>keys = [?k1, ?k2]\<rparr>)"
    by (simp add: key_matches_def)
  show ?thesis using resolve_cert_last_match [OF f e] by simp
qed

text \<open>
  C17. Refinement of the key-directory contract: when at most one record carries the
  token's key identifier, the resolver of lines 87--94 computes what the first-match
  contract \<open>resolve_spec\<close> prescribes, reading the fatal no-key exit and the index
  panic as the contract's key-not-found error.
\<close>

theorem resolve_cert_refines_spec:
  assumes "length (filter (key_matches kid) (keys ks)) \<le> 1"
  shows "abs_resolve (resolve_cert kid ks) = resolve_spec kid (keys ks)"
proof (cases "find (key_matches kid) (keys ks)")
  case None
  then have nf: "filter (key_matches kid) (keys ks) = []"
    by (simp add: find_None_filter)
  then have "\<not> empty_chain_match kid (keys ks)"
    by (auto simp: empty_chain_match_def filter_empty_conv)
  with nf None show ?thesis
    by (simp add: resolve_cert_eq resolve_spec_def)
next
  case (Some k)
  with assms have single: "filter (key_matches kid) (keys ks) = [k]"
    by (rule find_Some_single_filter)
  show ?thesis
    using Some single empty_chain_match_single [OF single]
    by (cases "jwk_x5c k") (simp_all add: resolve_cert_eq resolve_spec_def)
qed

theorem resolve_cert_refines_spec_witness:
  "length (filter (key_matches (Some (JStr ''k1'')))
     [\<lparr>jwk_kty = ''RSA'', jwk_kid = ''k1'', jwk_use = ''sig'', jwk_n = '''', jwk_e = '''',
       jwk_x5c = [''AAA''], jwk_x5t = []\<rparr>]) \<le> 1
   \<and> abs_resolve (resolve_cert (Some (JStr ''k1''))
       \<lparr>keys = [\<lparr>jwk_kty = ''RSA'', jwk_kid = ''k1'', jwk_use = ''sig'', jwk_n = '''', jwk_e = '''',
                 jwk_x5c = [''AAA''], jwk_x5t = []\<rparr>]\<rparr>)
     = Inr (pem_wrap ''AAA'')"
proof -
  let ?k = "\<lparr>jwk_kty = ''RSA'', jwk_kid = ''k1'', jwk_use = ''sig'', jwk_n = '''', jwk_e = '''',
       jwk_x5c = [''AAA''], jwk_x5t = []\<rparr>"
  have len: "length (filter (key_matches (Some (JStr ''k1''))) (keys \<lparr>keys = [?k]\<rparr>)) \<le> 1"
    by (simp add: key_matches_def)
  have "resolve_spec (Some (JStr ''k1'')) [?k] = Inr (pem_wrap ''AAA'')"
    by (simp add: resolve_spec_def key_matches_def)
  then show ?thesis
    using len resolve_cert_refines_spec [OF len] by simp
qed

text \<open>
  C19. A token header without a \<^verbatim>\<open>kid\<close> entry never matches a record, not even one
  whose identifier is the empty string, and resolution ends in the fatal exit of line 93
  whatever the key set is.
\<close>

theorem resolve_cert_missing_kid:
  "resolve_cert None ks = Fatal FatalNoKey"
  by (simp add: resolve_cert_eq key_matches_def empty_chain_match_def)

text \<open>
  C20. A matching record with an empty certificate chain makes \<^verbatim>\<open>X5c[0]\<close> panic
  (line 89), where the contract asks for a key-not-found error.
\<close>

theorem resolve_cert_empty_chain_panics:
  assumes "empty_chain_match kid (keys ks)"
  shows "resolve_cert kid ks = Panic PanicIndexOutOfRange"
  using assms by (simp add: resolve_cert_eq)

theorem resolve_cert_empty_chain_panics_witness:
  "empty_chain_match (Some (JStr ''k1''))
     [\<lparr>jwk_kty = ''RSA'', jwk_kid = ''k1'', jwk_use = ''sig'', jwk_n = '''', jwk_e = '''',
       jwk_x5c = [], jwk_x5t = []\<rparr>]
   \<and> resolve_cert (Some (JStr ''k1''))
       \<lparr>keys = [\<lparr>jwk_kty = ''RSA'', jwk_kid = ''k1'', jwk_use = ''sig'', jwk_n = '''', jwk_e = '''',
                 jwk_x5c = [], jwk_x5t = []\<rparr>]\<rparr> = Panic PanicIndexOutOfRange"
proof -
  let ?ks = "\<lparr>keys = [\<lparr>jwk_kty = ''RSA'', jwk_kid = ''k1'', jwk_use = ''sig'', jwk_n = '''',
       jwk_e = '''', jwk_x5c = [], jwk_x5t = []\<rparr>]\<rparr>"
  have h: "empty_chain_match (Some (JStr ''k1'')) (keys ?ks)"
    by (simp add: key_matches_def)
  show ?thesis using h resolve_cert_empty_chain_panics [OF h] by simp
qed

end
