(* ===== verification/Jwt_Claims.thy ===== *)
theory Jwt_Claims
  imports Jwks "HOL-Library.Word"
begin

unbundle bit_operations_syntax

text \<open>
  The claims check of jwt-go v3 that \<^verbatim>\<open>jwt.Parse\<close> runs on the \<^verbatim>\<open>MapClaims\<close> of
  every token \<^verbatim>\<open>verifyToken\<close> parses (lines 64 and 100 of \<^verbatim>\<open>src/main.go\<close>), and
  the error it reports. \<^verbatim>\<open>ValidationError.Errors\<close> is a \<^verbatim>\<open>uint32\<close> of flags,
  one bit per failed check (\<^verbatim>\<open>ValidationErrorMalformed = 1 << iota\<close>, \<dots>), modelled
  as a \<open>32 word\<close>. \<^verbatim>\<open>MapClaims.Valid\<close> compares the numeric \<^verbatim>\<open>exp\<close>,
  \<^verbatim>\<open>iat\<close> and \<^verbatim>\<open>nbf\<close> claims with the current Unix time; none of them is
  required, and a claim that is absent, zero or not a number is not checked. JSON numbers
  are \<open>JNum\<close> holding the integer that \<^verbatim>\<open>int64(float64)\<close> gives (values beyond the
  \<^verbatim>\<open>int64\<close> range are not modelled).
  Lemmas: each flag is one bit; the claims check reports no flag exactly when each of
  the three time checks passes, and what each check says of a claim that is absent, zero,
  not a number, or a number.
\<close>

section \<open>Validation error flags\<close>

type_synonym u32 = "32 word"

definition ValidationErrorMalformed :: u32 where "ValidationErrorMalformed = push_bit 0 1"
definition ValidationErrorUnverifiable :: u32 where "ValidationErrorUnverifiable = push_bit 1 1"
definition ValidationErrorSignatureInvalid :: u32 where "ValidationErrorSignatureInvalid = push_bit 2 1"
definition ValidationErrorAudience :: u32 where "ValidationErrorAudience = push_bit 3 1"
definition ValidationErrorExpired :: u32 where "ValidationErrorExpired = push_bit 4 1"
definition ValidationErrorIssuedAt :: u32 where "ValidationErrorIssuedAt = push_bit 5 1"
definition ValidationErrorIssuer :: u32 where "ValidationErrorIssuer = push_bit 6 1"
definition ValidationErrorNotValidYet :: u32 where "ValidationErrorNotValidYet = push_bit 7 1"
definition ValidationErrorId :: u32 where "ValidationErrorId = push_bit 8 1"
definition ValidationErrorClaimsInvalid :: u32 where "ValidationErrorClaimsInvalid = push_bit 9 1"

section \<open>The time checks of MapClaims\<close>

text \<open>The decoded payload, \<^verbatim>\<open>jwt.MapClaims\<close>.\<close>

type_synonym claims = "string \<rightharpoonup> jval"

text \<open>\<^verbatim>\<open>verifyExp\<close>, \<^verbatim>\<open>verifyIat\<close>, \<^verbatim>\<open>verifyNbf\<close>: a zero claim passes unless required.\<close>

definition verify_exp :: "int \<Rightarrow> int \<Rightarrow> bool \<Rightarrow> bool" where
  "verify_exp exp now required = (if exp = 0 then \<not> required else now \<le> exp)"

definition verify_iat :: "int \<Rightarrow> int \<Rightarrow> bool \<Rightarrow> bool" where
  "verify_iat iat now required = (if iat = 0 then \<not> required else now \<ge> iat)"

definition verify_nbf :: "int \<Rightarrow> int \<Rightarrow> bool \<Rightarrow> bool" where
  "verify_nbf nbf now required = (if nbf = 0 then \<not> required else now \<ge> nbf)"

text \<open>
  \<^verbatim>\<open>MapClaims.VerifyExpiresAt\<close> and its two siblings: the check runs on a number;
  any other value, or none, gives \<^verbatim>\<open>req == false\<close>.
\<close>

definition claim_check :: "(int \<Rightarrow> int \<Rightarrow> bool \<Rightarrow> bool) \<Rightarrow> string \<Rightarrow> claims \<Rightarrow> int \<Rightarrow> bool \<Rightarrow> bool" where
  "claim_check verify k c now req = (case c k of Some (JNum v) \<Rightarrow> verify v now req | _ \<Rightarrow> \<not> req)"

text \<open>\<^verbatim>\<open>MapClaims.Valid\<close>: the flags of the failed checks, in the code's order; 0 is \<^verbatim>\<open>nil\<close>.\<close>

definition map_claims_valid :: "int \<Rightarrow> claims \<Rightarrow> u32" where
  "map_claims_valid now c =
     (let e0 = 0;
          e1 = (if claim_check verify_exp ''exp'' c now False then e0 else e0 OR ValidationErrorExpired);
          e2 = (if claim_check verify_iat ''iat'' c now False then e1 else e1 OR ValidationErrorIssuedAt);
          e3 = (if claim_check verify_nbf ''nbf'' c now False then e2 else e2 OR ValidationErrorNotValidYet)
      in e3)"

lemmas flag_defs = ValidationErrorMalformed_def ValidationErrorUnverifiable_def
  ValidationErrorSignatureInvalid_def ValidationErrorAudience_def ValidationErrorExpired_def
  ValidationErrorIssuedAt_def ValidationErrorIssuer_def ValidationErrorNotValidYet_def
  ValidationErrorId_def ValidationErrorClaimsInvalid_def

section \<open>Lemmas on the flags\<close>

lemma bit_flag: "bit (push_bit k (1 :: u32)) n \<longleftrightarrow> n = k \<and> k < 32"
  by (simp add: bit_push_bit_iff bit_1_iff possible_bit_def) (auto simp: bit_exp_iff)

text \<open>Each flag is its one bit.\<close>

lemma flag_bits:
  "bit ValidationErrorSignatureInvalid n \<longleftrightarrow> n = 2"
  "bit ValidationErrorExpired n \<longleftrightarrow> n = 4"
  "bit ValidationErrorIssuedAt n \<longleftrightarrow> n = 5"
  "bit ValidationErrorNotValidYet n \<longleftrightarrow> n = 7"
  unfolding ValidationErrorSignatureInvalid_def ValidationErrorExpired_def
    ValidationErrorIssuedAt_def ValidationErrorNotValidYet_def
  by (simp_all only: bit_flag) simp_all

lemma signature_flag_nonzero [simp]: "f OR ValidationErrorSignatureInvalid \<noteq> 0"
proof
  assume "f OR ValidationErrorSignatureInvalid = 0"
  then have "bit (f OR ValidationErrorSignatureInvalid) 2 = bit (0 :: u32) 2" by simp
  then show False by (simp add: bit_or_iff flag_bits)
qed

lemma bit_map_claims_valid:
  "bit (map_claims_valid now c) n \<longleftrightarrow>
     (n = 4 \<and> \<not> claim_check verify_exp ''exp'' c now False) \<or>
     (n = 5 \<and> \<not> claim_check verify_iat ''iat'' c now False) \<or>
     (n = 7 \<and> \<not> claim_check verify_nbf ''nbf'' c now False)"
  by (auto simp: map_claims_valid_def Let_def bit_or_iff flag_bits)

lemma map_claims_expired:
  "c ''exp'' = Some (JNum e) \<Longrightarrow> e \<noteq> 0 \<Longrightarrow> e < now \<Longrightarrow> map_claims_valid now c \<noteq> 0"
proof
  assume exp: "c ''exp'' = Some (JNum e)" "e \<noteq> 0" "e < now" and z: "map_claims_valid now c = 0"
  from exp have "bit (map_claims_valid now c) 4" by (simp add: bit_map_claims_valid claim_check_def verify_exp_def)
  with z show False by simp
qed

text \<open>No flag is set exactly when all three time checks pass.\<close>

lemma map_claims_valid_eq_0:
  "map_claims_valid now c = 0 \<longleftrightarrow>
     claim_check verify_exp ''exp'' c now False \<and> claim_check verify_iat ''iat'' c now False \<and>
     claim_check verify_nbf ''nbf'' c now False"
proof
  assume z: "map_claims_valid now c = 0"
  have "\<not> bit (map_claims_valid now c) n" for n by (simp add: z)
  from this [of 4] this [of 5] this [of 7] show
    "claim_check verify_exp ''exp'' c now False \<and> claim_check verify_iat ''iat'' c now False \<and>
     claim_check verify_nbf ''nbf'' c now False"
    by (simp_all add: bit_map_claims_valid)
next
  assume "claim_check verify_exp ''exp'' c now False \<and> claim_check verify_iat ''iat'' c now False \<and>
     claim_check verify_nbf ''nbf'' c now False"
  then show "map_claims_valid now c = 0" by (simp add: map_claims_valid_def Let_def)
qed

text \<open>
  What each unrequired check says of a claim: it fails only on a nonzero number on the
  wrong side of the current time; an absent claim, a zero and any other JSON value pass.
\<close>

lemma claim_check_time_iffs:
  "claim_check verify_exp ''exp'' c now False \<longleftrightarrow> \<not> (\<exists>e. c ''exp'' = Some (JNum e) \<and> e \<noteq> 0 \<and> e < now)"
  "claim_check verify_iat ''iat'' c now False \<longleftrightarrow> \<not> (\<exists>i. c ''iat'' = Some (JNum i) \<and> i \<noteq> 0 \<and> now < i)"
  "claim_check verify_nbf ''nbf'' c now False \<longleftrightarrow> \<not> (\<exists>n. c ''nbf'' = Some (JNum n) \<and> n \<noteq> 0 \<and> now < n)"
  by (auto simp: claim_check_def verify_exp_def verify_iat_def verify_nbf_def split: option.split jval.split)

end
