(* ===== verification/Jwt_Lib.thy ===== *)
theory Jwt_Lib
  imports Jwt_Claims
begin

text \<open>
  The part of the jwt-go library (\<^verbatim>\<open>github.com/dgrijalva/jwt-go\<close>, v3) that
  \<^verbatim>\<open>verifyToken\<close> calls at lines 64, 96 and 100 of \<^verbatim>\<open>src/main.go\<close>:
  \<^verbatim>\<open>jwt.Parse\<close> (\<^verbatim>\<open>ParseUnverified\<close> followed by the key function, the claims
  check and the signing method's \<^verbatim>\<open>Verify\<close>), the registry of signing methods
  and the key types each method accepts. Cryptography, base64url and JSON decoding are
  the environment (\<open>jwt_env\<close>, an extension of the key-set fetch environment): the
  proofs hold for every choice of them. What is modelled exactly is the control flow the
  program depends on: which key type each method family accepts, the order of the
  signature decode and the key-type check, the nil public key that an RSA verification
  dereferences, and when \<^verbatim>\<open>Valid\<close> is set.
\<close>

section \<open>Signing methods and keys\<close>

text \<open>The methods registered by jwt-go, looked up by the header's \<^verbatim>\<open>alg\<close>.\<close>

datatype signing_method =
    HS256 | HS384 | HS512 | RS256 | RS384 | RS512 | PS256 | PS384 | PS512
  | ES256 | ES384 | ES512 | SigNone

text \<open>The Go type behind each method: \<^verbatim>\<open>*SigningMethodHMAC\<close>,
  \<^verbatim>\<open>*SigningMethodRSA\<close>, \<^verbatim>\<open>*SigningMethodRSAPSS\<close>, \<^verbatim>\<open>*SigningMethodECDSA\<close>,
  \<^verbatim>\<open>*signingMethodNone\<close>.\<close>

datatype method_family = FamHMAC | FamRSA | FamRSAPSS | FamECDSA | FamNone

fun family :: "signing_method \<Rightarrow> method_family" where
  "family HS256 = FamHMAC" | "family HS384 = FamHMAC" | "family HS512 = FamHMAC"
| "family RS256 = FamRSA" | "family RS384 = FamRSA" | "family RS512 = FamRSA"
| "family PS256 = FamRSAPSS" | "family PS384 = FamRSAPSS" | "family PS512 = FamRSAPSS"
| "family ES256 = FamECDSA" | "family ES384 = FamECDSA" | "family ES512 = FamECDSA"
| "family SigNone = FamNone"

definition get_signing_method :: "string \<Rightarrow> signing_method option" where
  "get_signing_method =
     map_of [(''HS256'', HS256), (''HS384'', HS384), (''HS512'', HS512),
             (''RS256'', RS256), (''RS384'', RS384), (''RS512'', RS512),
             (''PS256'', PS256), (''PS384'', PS384), (''PS512'', PS512),
             (''ES256'', ES256), (''ES384'', ES384), (''ES512'', ES512),
             (''none'', SigNone)]"

text \<open>
  The keys this program hands to jwt-go: a \<^verbatim>\<open>[]byte\<close> secret (line 65) or the
  \<^verbatim>\<open>*rsa.PublicKey\<close> returned by \<^verbatim>\<open>ParseRSAPublicKeyFromPEM\<close> (line 106),
  which is a nil pointer (\<open>None\<close>) when the certificate does not parse.
\<close>

datatype 'pk verify_key = KeyBytes string | KeyRSA "'pk option"

datatype verify_error =
    ErrInvalidKeyType | ErrInvalidKey | ErrSignatureInvalid | ErrSegmentDecode
  | ErrNoneDisallowed

text \<open>
  The environment: the key-set fetch, base64url decoding of a signature segment, the
  HMAC and RSA signature checks, base64url-then-JSON decoding of the header and claims
  segments, the current Unix time (\<^verbatim>\<open>TimeFunc().Unix()\<close>, read by
  \<^verbatim>\<open>MapClaims.Valid\<close>) and \<^verbatim>\<open>ParseRSAPublicKeyFromPEM\<close>.
\<close>

record 'pk jwt_env = fetch_env +
  seg_decodes :: "string \<Rightarrow> bool"
  hmac_ok :: "signing_method \<Rightarrow> string \<Rightarrow> string \<Rightarrow> string \<Rightarrow> bool"
  rsa_ok :: "signing_method \<Rightarrow> 'pk \<Rightarrow> string \<Rightarrow> string \<Rightarrow> bool"
  decode_header :: "string \<Rightarrow> jwt_header option"
  decode_claims :: "string \<Rightarrow> claims option"
  unix_now :: int
  parse_pem :: "string \<Rightarrow> 'pk option"

text \<open>
  \<^verbatim>\<open>Verify(signingString, signature, key)\<close> of each method family: \<open>Ret None\<close>
  is a good signature, \<open>Ret (Some e)\<close> an error. HMAC checks the key type before it
  decodes the signature; RSA, RSA-PSS and ECDSA decode first. RSA and RSA-PSS accept
  a nil \<^verbatim>\<open>*rsa.PublicKey\<close> and the verification then dereferences it.
\<close>

fun method_verify ::
  "('pk, 'e) jwt_env_scheme \<Rightarrow> signing_method \<Rightarrow> string \<Rightarrow> string \<Rightarrow> 'pk verify_key
   \<Rightarrow> verify_error option go" where
  "method_verify env m ss sig key =
     (case family m of
        FamHMAC \<Rightarrow>
          (case key of
             KeyBytes k \<Rightarrow>
               if \<not> seg_decodes env sig then Ret (Some ErrSegmentDecode)
               else if hmac_ok env m k ss sig then Ret None
               else Ret (Some ErrSignatureInvalid)
           | KeyRSA _ \<Rightarrow> Ret (Some ErrInvalidKeyType))
      | FamNone \<Rightarrow> Ret (Some ErrNoneDisallowed)
      | fam \<Rightarrow>
          if \<not> seg_decodes env sig then Ret (Some ErrSegmentDecode)
          else (case key of
                  KeyRSA (Some pk) \<Rightarrow>
                    if fam = FamECDSA then Ret (Some ErrInvalidKeyType)
                    else if rsa_ok env m pk ss sig then Ret None
                    else Ret (Some ErrSignatureInvalid)
                | KeyRSA None \<Rightarrow>
                    if fam = FamECDSA then Ret (Some ErrInvalidKeyType)
                    else Panic PanicNilDeref
                | KeyBytes _ \<Rightarrow>
                    if fam = FamRSAPSS then Ret (Some ErrInvalidKey)
                    else Ret (Some ErrInvalidKeyType)))"

section \<open>Tokens and parsing\<close>

text \<open>
  \<^verbatim>\<open>jwt.Token\<close>: \<^verbatim>\<open>Method\<close> is nil (\<open>None\<close>) until the \<^verbatim>\<open>alg\<close> lookup
  succeeded, \<^verbatim>\<open>Valid\<close> is set only by a fully successful parse.
\<close>

record jwt_token =
  tok_raw :: string
  tok_header :: jwt_header
  tok_claims :: claims
  tok_method :: "signing_method option"
  tok_signature :: string
  tok_valid :: bool

datatype parse_error =
    ErrMalformed
  | ErrUnverifiable
  | ErrKeyFunc "jval option"    \<comment> \<open>the key function's error, carrying the \<^verbatim>\<open>alg\<close> it printed\<close>
  | ErrValidation u32 "verify_error option"  \<comment> \<open>\<^verbatim>\<open>ValidationError.Errors\<close>, signature error\<close>

text \<open>
  \<^verbatim>\<open>Parser.ParseUnverified\<close>: three dot-separated segments, a decodable header
  and claims, a string \<^verbatim>\<open>alg\<close> naming a registered method. The token is nil only
  for a wrong segment count.
\<close>

definition parse_unverified ::
  "('pk, 'e) jwt_env_scheme \<Rightarrow> string \<Rightarrow> jwt_token option \<times> parse_error option" where
  "parse_unverified env s =
     (let parts = split_on (CHR ''.'') s;
          t0 = \<lparr>tok_raw = s, tok_header = Map.empty, tok_claims = Map.empty, tok_method = None,
                tok_signature = [], tok_valid = False\<rparr>
      in if length parts \<noteq> 3 then (None, Some ErrMalformed)
      else (case decode_header env (parts ! 0) of
              None \<Rightarrow> (Some t0, Some ErrMalformed)
            | Some h \<Rightarrow>
                (case decode_claims env (parts ! 1) of
                   None \<Rightarrow> (Some (t0\<lparr>tok_header := h\<rparr>), Some ErrMalformed)
                 | Some c \<Rightarrow>
                     (case h ''alg'' of
                        Some (JStr a) \<Rightarrow>
                          (case get_signing_method a of
                             None \<Rightarrow> (Some (t0\<lparr>tok_header := h, tok_claims := c\<rparr>), Some ErrUnverifiable)
                           | Some m \<Rightarrow>
                               (Some (t0\<lparr>tok_header := h, tok_claims := c, tok_method := Some m\<rparr>), None))
                      | _ \<Rightarrow> (Some (t0\<lparr>tok_header := h, tok_claims := c\<rparr>), Some ErrUnverifiable)))))"

text \<open>
  \<^verbatim>\<open>jwt.Parse(s, keyFunc)\<close> (\<^verbatim>\<open>Parser.ParseWithClaims\<close>): after
  \<^verbatim>\<open>ParseUnverified\<close>, the key function is asked for the key; its error ends the
  parse. The claims are checked (\<^verbatim>\<open>vErr\<close> takes the claims' flags), the method
  verifies the signature over the first two segments joined by a dot (a failure adds
  \<^verbatim>\<open>ValidationErrorSignatureInvalid\<close>), and \<^verbatim>\<open>Valid\<close> is set when no flag is
  set (\<^verbatim>\<open>vErr.valid()\<close>).
\<close>

text \<open>\<^verbatim>\<open>vErr.Errors |= ValidationErrorSignatureInvalid\<close> when \<^verbatim>\<open>Verify\<close> failed.\<close>

definition add_signature_flag :: "verify_error option \<Rightarrow> u32 \<Rightarrow> u32" where
  "add_signature_flag verr f = (case verr of None \<Rightarrow> f | Some _ \<Rightarrow> f OR ValidationErrorSignatureInvalid)"

definition jwt_parse ::
  "('pk, 'e) jwt_env_scheme \<Rightarrow> string \<Rightarrow> (jwt_token \<Rightarrow> jval option + 'pk verify_key)
   \<Rightarrow> (jwt_token option \<times> parse_error option) go" where
  "jwt_parse env s keyfunc =
     (case parse_unverified env s of
        (Some t, None) \<Rightarrow>
          (case keyfunc t of
             Inl e \<Rightarrow> Ret (Some t, Some (ErrKeyFunc e))
           | Inr key \<Rightarrow>
               (let parts = split_on (CHR ''.'') s;
                    cflags = map_claims_valid (unix_now env) (tok_claims t);
                    t' = t\<lparr>tok_signature := parts ! 2\<rparr>
                in go_bind
                     (method_verify env (the (tok_method t)) (join_with (CHR ''.'') (take 2 parts))
                        (parts ! 2) key)
                     (\<lambda>verr. let flags = add_signature_flag verr cflags
                             in if flags = 0 then Ret (Some (t'\<lparr>tok_valid := True\<rparr>), None)
                                else Ret (Some t', Some (ErrValidation flags verr)))))
      | r \<Rightarrow> Ret r)"

lemmas jwt_lib_defs = jwt_parse_def parse_unverified_def get_signing_method_def add_signature_flag_def

section \<open>Lemmas on method verification\<close>

lemma method_verify_bytes_Ret: "\<exists>r. method_verify env m ss sig (KeyBytes k) = Ret r"
  by (cases "family m") auto

lemma method_verify_bytes_ok:
  "method_verify env m ss sig (KeyBytes k) = Ret None \<Longrightarrow> family m = FamHMAC"
  by (cases "family m") (auto split: if_splits)

declare method_verify.simps [simp del]

section \<open>Lemmas on parsing\<close>

lemma add_signature_flag_eq_0 [simp]: "(add_signature_flag verr f = 0) = (verr = None \<and> f = 0)"
  by (cases verr) (simp_all add: add_signature_flag_def)

lemma parse_unverified_not_valid:
  "parse_unverified env s = (Some t, e) \<Longrightarrow> \<not> tok_valid t"
  by (auto simp: parse_unverified_def Let_def split: if_splits option.splits jval.splits)

lemma parse_unverified_nil:
  "parse_unverified env s = (None, e) \<Longrightarrow> e = Some ErrMalformed"
  by (auto simp: parse_unverified_def Let_def split: if_splits option.splits jval.splits)

lemma parse_unverified_method:
  "parse_unverified env s = (Some t, None) \<Longrightarrow> \<exists>m. tok_method t = Some m"
  by (auto simp: parse_unverified_def Let_def split: if_splits option.splits jval.splits)

text \<open>What a parse without error has established.\<close>

lemma jwt_parse_ok:
  assumes "jwt_parse env s kf = Ret (tok, None)"
  shows "\<exists>t m key. parse_unverified env s = (Some t, None) \<and> tok_method t = Some m \<and>
           kf t = Inr key \<and>
           method_verify env m (join_with (CHR ''.'') (take 2 (split_on (CHR ''.'') s)))
             (split_on (CHR ''.'') s ! 2) key = Ret None \<and> tok \<noteq> None"
proof (cases "parse_unverified env s")
  case (Pair tk e)
  show ?thesis
  proof (cases "tk \<noteq> None \<and> e = None")
    case True
    then obtain t where pu: "parse_unverified env s = (Some t, None)"
      using Pair by auto
    then obtain m where m: "tok_method t = Some m"
      using parse_unverified_method by blast
    from assms pu m show ?thesis
      by (auto simp: jwt_parse_def Let_def go_bind_eq_Ret_conv split: sum.splits if_splits option.splits)
  next
    case False
    with assms Pair show ?thesis
      by (cases tk; cases e) (auto simp: jwt_parse_def dest: parse_unverified_nil)
  qed
qed

lemma jwt_parse_ok_token: "jwt_parse env s kf = Ret (tok, None) \<Longrightarrow> tok \<noteq> None"
  using jwt_parse_ok by blast

lemma jwt_parse_valid:
  assumes "jwt_parse env s kf = Ret (Some t, e)" and "tok_valid t"
  shows "e = None"
proof (cases "parse_unverified env s")
  case (Pair tk e0)
  show ?thesis
  proof (cases "tk \<noteq> None \<and> e0 = None")
    case True
    then obtain t0 where "parse_unverified env s = (Some t0, None)"
      using Pair by auto
    with assms parse_unverified_not_valid [of env s t0 None] show ?thesis
      by (auto simp: jwt_parse_def Let_def go_bind_eq_Ret_conv split: sum.splits if_splits)
  next
    case False
    with assms Pair parse_unverified_not_valid [of env s t e0] show ?thesis
      by (cases tk; cases e0) (auto simp: jwt_parse_def)
  qed
qed

lemma parse_unverified_error:
  "parse_unverified env s = (tk, Some e) \<Longrightarrow> e = ErrMalformed \<or> e = ErrUnverifiable"
  by (auto simp: parse_unverified_def Let_def split: if_splits option.splits jval.splits)

text \<open>A parse whose claims check failed reports a validation error, whatever the signature.\<close>

lemma jwt_parse_claims_invalid:
  assumes "parse_unverified env s = (Some t, None)" and "kf t = Inr key"
    and "map_claims_valid (unix_now env) (tok_claims t) \<noteq> 0"
    and "method_verify env (the (tok_method t)) (join_with (CHR ''.'') (take 2 (split_on (CHR ''.'') s)))
           (split_on (CHR ''.'') s ! 2) key = Ret r"
  shows "\<exists>t' f. jwt_parse env s kf = Ret (Some t', Some (ErrValidation f r))"
  using assms by (auto simp: jwt_parse_def Let_def)

text \<open>A parse whose claims check and signature both passed reports no error.\<close>

lemma jwt_parse_claims_valid:
  assumes "parse_unverified env s = (Some t, None)" and "kf t = Inr key"
    and "map_claims_valid (unix_now env) (tok_claims t) = 0"
    and "method_verify env (the (tok_method t)) (join_with (CHR ''.'') (take 2 (split_on (CHR ''.'') s)))
           (split_on (CHR ''.'') s ! 2) key = Ret None"
  shows "\<exists>t'. jwt_parse env s kf = Ret (Some t', None)"
  using assms by (auto simp: jwt_parse_def Let_def add_signature_flag_def)

text \<open>Where a validation error comes from: the claims' flags and the signature's.\<close>

end
