(* ===== verification/Verify.thy ===== *)
theory Verify
  imports Jwt_Lib
begin

text \<open>
  \<^verbatim>\<open>verifyToken\<close> (lines 61--119 of \<^verbatim>\<open>src/main.go\<close>): parse the token with the
  shared-secret key function (lines 64--69), fetch the key set and resolve the
  certificate of the token's \<^verbatim>\<open>kid\<close> (lines 72--94, theory \<open>Jwks\<close>), parse the
  certificate into an RSA public key with the error dropped (line 96), parse the token a
  second time with a key function that insists on an RSA method (lines 100--107) and
  return the second token's \<^verbatim>\<open>Valid\<close> (line 110). The result is the outcome and the
  external calls made, in order. Line 98, \<^verbatim>\<open>jwt.SigningMethodRS256.Verify()\<close>, calls
  a three-argument method with none and does not compile; it is left out.
  Lemmas: the first parse fails for every token that is not HMAC-signed, so every such
  token ends the process before any network call; the two key functions demand
  different method families of the same header, so the verifier never answers true; an
  HMAC token past its \<^verbatim>\<open>exp\<close> also ends the process, in jwt-go's claims check;
  the verifier returns (false) exactly when the parse, the fetch and the key resolution
  succeeded.
\<close>

section \<open>The two key functions\<close>

text \<open>Lines 64--66: every token gets the fixed secret \<^verbatim>\<open>[]byte("AllYourBase")\<close>.\<close>

definition keyfunc_secret :: "jwt_token \<Rightarrow> jval option + 'pk verify_key" where
  "keyfunc_secret t = Inr (KeyBytes ''AllYourBase'')"

text \<open>
  Lines 100--107: the type assertion \<^verbatim>\<open>token.Method.(*jwt.SigningMethodRSA)\<close>
  holds for RS256/384/512 only; otherwise the error reports \<^verbatim>\<open>token.Header["alg"]\<close>.
  The key returned is the possibly nil result of \<^verbatim>\<open>ParseRSAPublicKeyFromPEM\<close>.
\<close>

definition keyfunc_rsa :: "'pk option \<Rightarrow> jwt_token \<Rightarrow> jval option + 'pk verify_key" where
  "keyfunc_rsa result t =
     (case tok_method t of
        Some m \<Rightarrow> if family m = FamRSA then Inr (KeyRSA result) else Inl (tok_header t ''alg'')
      | None \<Rightarrow> Inl (tok_header t ''alg''))"

section \<open>verifyToken\<close>

text \<open>
  Lines 100--110 after the certificate is known: the second parse, whose error is not
  checked, and the read of \<^verbatim>\<open>token2.Valid\<close>, a nil dereference when the second
  parse returned no token.
\<close>

definition second_parse :: "('pk, 'e) jwt_env_scheme \<Rightarrow> string \<Rightarrow> string \<Rightarrow> bool go" where
  "second_parse env s cert =
     go_bind (jwt_parse env s (keyfunc_rsa (parse_pem env cert)))
       (\<lambda>(tok2, err2). case tok2 of None \<Rightarrow> Panic PanicNilDeref | Some t2 \<Rightarrow> Ret (tok_valid t2))"

text \<open>
  The whole function. A token returned together with a nil error is never nil in
  jwt-go (lemma \<open>jwt_parse_ok_token\<close>), so the \<open>None\<close> branch after the first
  parse does not occur; it is the nil dereference Go would perform.
\<close>

definition verify_token :: "('pk, 'e) jwt_env_scheme \<Rightarrow> string \<Rightarrow> bool go \<times> ext_call list" where
  "verify_token env s =
     (case jwt_parse env s keyfunc_secret of
        Ret (tok, None) \<Rightarrow>
          (let calls = [CallHttpGet jwks_url] in
           (case fetch_jwks env of
              Ret ks \<Rightarrow>
                (case tok of
                   None \<Rightarrow> (Panic PanicNilDeref, calls)
                 | Some t \<Rightarrow>
                     (go_bind (resolve_cert (tok_header t ''kid'') ks) (second_parse env s), calls))
            | Fatal f \<Rightarrow> (Fatal f, calls)
            | Panic p \<Rightarrow> (Panic p, calls)))
      | Ret (tok, Some e) \<Rightarrow> (Fatal FatalTokenParse, [])
      | Fatal f \<Rightarrow> (Fatal f, [])
      | Panic p \<Rightarrow> (Panic p, []))"

text \<open>
  A sample environment for the witnesses: the key directory holds one RSA key
  \<^verbatim>\<open>k1\<close>; the header segment \<^verbatim>\<open>h\<close> declares HS256 and \<^verbatim>\<open>r\<close> declares
  RS256, both with key identifier \<^verbatim>\<open>k1\<close>; every signature checks.
\<close>

definition sample_key :: json_web_key where
  "sample_key = \<lparr>jwk_kty = ''RSA'', jwk_kid = ''k1'', jwk_use = ''sig'', jwk_n = [], jwk_e = [],
     jwk_x5c = [''MIIC''], jwk_x5t = []\<rparr>"

definition sample_env :: "(nat, unit) jwt_env_scheme" where
  "sample_env =
     \<lparr>http_get = (\<lambda>u. Some ''{keys}''), decode_jwks = (\<lambda>b. (\<lparr>keys = [sample_key]\<rparr>, False)),
      seg_decodes = (\<lambda>s. True), hmac_ok = (\<lambda>m k ss sig. True), rsa_ok = (\<lambda>m pk ss sig. True),
      decode_header = (\<lambda>s. if s = ''h'' then Some [''alg'' \<mapsto> JStr ''HS256'', ''kid'' \<mapsto> JStr ''k1'']
                           else if s = ''r'' then Some [''alg'' \<mapsto> JStr ''RS256'', ''kid'' \<mapsto> JStr ''k1'']
                           else None),
      decode_claims = (\<lambda>s. Some Map.empty), unix_now = 0,
      parse_pem = (\<lambda>c. Some 1), \<dots> = ()\<rparr>"

text \<open>The sample environment one hundred seconds after the token's \<^verbatim>\<open>exp\<close> of 50.\<close>

definition expired_env :: "(nat, unit) jwt_env_scheme" where
  "expired_env = sample_env\<lparr>decode_claims := (\<lambda>s. Some [''exp'' \<mapsto> JNum 50]), unix_now := 100\<rparr>"

text \<open>The sample environment at the very second of the token's \<^verbatim>\<open>exp\<close>.\<close>

definition boundary_env :: "(nat, unit) jwt_env_scheme" where
  "boundary_env = sample_env\<lparr>decode_claims := (\<lambda>s. Some [''exp'' \<mapsto> JNum 100]), unix_now := 100\<rparr>"

lemmas sample_simps = sample_env_def sample_key_def jwt_lib_defs keyfunc_secret_def
  map_claims_valid_def claim_check_def
  keyfunc_rsa_def fetch_jwks_def resolve_cert_eq key_matches_def second_parse_def

section \<open>Lemmas on the two parses\<close>

text \<open>A first parse without error has seen an HMAC method: the secret is a byte slice.\<close>

lemma first_parse_ok_hmac:
  assumes "jwt_parse env s keyfunc_secret = Ret (tok, None)"
  shows "\<exists>t m. parse_unverified env s = (Some t, None) \<and> tok_method t = Some m \<and>
           family m = FamHMAC"
proof -
  from jwt_parse_ok [OF assms] obtain t m key where
    pu: "parse_unverified env s = (Some t, None)" and m: "tok_method t = Some m" and
    k: "keyfunc_secret t = Inr key" and
    v: "method_verify env m (join_with (CHR ''.'') (take 2 (split_on (CHR ''.'') s)))
          (split_on (CHR ''.'') s ! 2) key = Ret None"
    by blast
  from k have "key = KeyBytes ''AllYourBase''" by (simp add: keyfunc_secret_def)
  with v have "family m = FamHMAC" by (blast intro: method_verify_bytes_ok)
  with pu m show ?thesis by blast
qed

text \<open>A second parse answering true has seen an RSA method: the key function demands it.\<close>

lemma second_parse_true_rsa:
  assumes "second_parse env s cert = Ret True"
  shows "\<exists>t m. parse_unverified env s = (Some t, None) \<and> tok_method t = Some m \<and>
           family m = FamRSA"
proof -
  from assms obtain t2 e2 where
    p: "jwt_parse env s (keyfunc_rsa (parse_pem env cert)) = Ret (Some t2, e2)" and
    v: "tok_valid t2"
    by (auto simp: second_parse_def go_bind_eq_Ret_conv split: option.splits)
  from p v have "e2 = None" by (rule jwt_parse_valid)
  with p obtain t m key where
    pu: "parse_unverified env s = (Some t, None)" and m: "tok_method t = Some m" and
    k: "keyfunc_rsa (parse_pem env cert) t = Inr key"
    using jwt_parse_ok by blast
  from k m have "family m = FamRSA"
    by (simp add: keyfunc_rsa_def split: if_splits)
  with pu m show ?thesis by blast
qed

text \<open>The first parse fails for every token whose method is not HMAC, without a panic.\<close>

lemma first_parse_non_hmac:
  assumes "parse_unverified env s = (Some t, None)" and "tok_method t = Some m"
    and "family m \<noteq> FamHMAC"
  shows "\<exists>tok e. jwt_parse env s keyfunc_secret = Ret (tok, Some e)"
proof -
  obtain r where r: "method_verify env m (join_with (CHR ''.'') (take 2 (split_on (CHR ''.'') s)))
      (split_on (CHR ''.'') s ! 2) (KeyBytes ''AllYourBase'') = Ret r"
    using method_verify_bytes_Ret by blast
  have "r \<noteq> None"
    using r assms(3) by (cases r) (auto dest: method_verify_bytes_ok)
  with assms r show ?thesis
    by (auto simp: jwt_parse_def keyfunc_secret_def Let_def)
qed

lemma verify_token_first_parse_error:
  "jwt_parse env s keyfunc_secret = Ret (tok, Some e) \<Longrightarrow>
   verify_token env s = (Fatal FatalTokenParse, [])"
  by (simp add: verify_token_def)

text \<open>The first parse never panics: the secret is never dereferenced as a pointer.\<close>

lemma first_parse_Ret: "\<exists>r. jwt_parse env s keyfunc_secret = Ret r"
proof (cases "parse_unverified env s")
  case (Pair tk e)
  show ?thesis
  proof (cases "tk \<noteq> None \<and> e = None")
    case True
    then obtain t where pu: "parse_unverified env s = (Some t, None)"
      using Pair by auto
    obtain r where "method_verify env (the (tok_method t))
        (join_with (CHR ''.'') (take 2 (split_on (CHR ''.'') s)))
        (split_on (CHR ''.'') s ! 2) (KeyBytes ''AllYourBase'') = Ret r"
      using method_verify_bytes_Ret by blast
    with pu show ?thesis
      by (auto simp: jwt_parse_def keyfunc_secret_def Let_def)
  next
    case False
    with Pair show ?thesis by (cases tk; cases e) (auto simp: jwt_parse_def)
  qed
qed

lemma verify_token_cases:
  "verify_token env s = (Fatal FatalTokenParse, []) \<or>
   (\<exists>tok. jwt_parse env s keyfunc_secret = Ret (tok, None) \<and>
      snd (verify_token env s) = [CallHttpGet jwks_url])"
proof -
  obtain tok e where r: "jwt_parse env s keyfunc_secret = Ret (tok, e)"
    using first_parse_Ret by (metis surj_pair)
  then show ?thesis
    by (cases e) (auto simp: verify_token_def Let_def split: option.splits go.splits)
qed

text \<open>The second parse of an HMAC token stops in the key function: \<^verbatim>\<open>Valid\<close> stays false.\<close>

lemma second_parse_hmac:
  assumes "parse_unverified env s = (Some t, None)" and "tok_method t = Some m"
    and "family m = FamHMAC"
  shows "second_parse env s cert = Ret False"
proof -
  have "\<not> tok_valid t" using assms(1) by (rule parse_unverified_not_valid)
  with assms show ?thesis
    by (simp add: second_parse_def jwt_parse_def keyfunc_rsa_def)
qed

text \<open>Whatever the verifier returns is false.\<close>

lemma verify_token_Ret_False:
  assumes ret: "fst (verify_token env s) = Ret b"
  shows "\<not> b"
proof
  assume "b"
  with ret have ret: "fst (verify_token env s) = Ret True" by simp
  obtain tok e where p1: "jwt_parse env s keyfunc_secret = Ret (tok, e)"
    using first_parse_Ret by (metis surj_pair)
  show False
  proof (cases e)
    case None
    from first_parse_ok_hmac [OF p1 [unfolded None]] obtain t m where
      pu: "parse_unverified env s = (Some t, None)" and m: "tok_method t = Some m" and
      hm: "family m = FamHMAC"
      by blast
    from p1 None have "tok \<noteq> None" by (blast dest: jwt_parse_ok_token)
    with ret p1 None obtain cert where "second_parse env s cert = Ret True"
      by (auto simp: verify_token_def Let_def go_bind_eq_Ret_conv split: go.splits option.splits)
    then obtain t' m' where "parse_unverified env s = (Some t', None)" and
      "tok_method t' = Some m'" and "family m' = FamRSA"
      by (blast dest: second_parse_true_rsa)
    with pu m hm show False by simp
  next
    case (Some err)
    with ret p1 show False by (simp add: verify_token_def)
  qed
qed

section \<open>Properties of verifyToken\<close>

text \<open>
  C2. The verifier never accepts a token: whatever the token, the key set and the
  cryptography, \<^verbatim>\<open>verifyToken\<close> does not return true. The first parse succeeds only
  for an HMAC method (its key is a byte slice), the second only for an RSA method (its key
  function rejects every other), and both read the same header.
\<close>

theorem verify_token_never_true: "fst (verify_token env s) \<noteq> Ret True"
  using verify_token_Ret_False [of env s True] by blast

text \<open>
  C8. A token whose header names any method other than HMAC (in particular every RS256
  token of the identity provider) makes the first parse fail, and
  \<^verbatim>\<open>log.Fatal\<close> at line 68 ends the process before any network call.
\<close>

theorem verify_token_non_hmac_fatal:
  assumes "parse_unverified env s = (Some t, None)" and "tok_method t = Some m"
    and "family m \<noteq> FamHMAC"
  shows "verify_token env s = (Fatal FatalTokenParse, [])"
proof -
  from first_parse_non_hmac [OF assms] obtain tok e where
    "jwt_parse env s keyfunc_secret = Ret (tok, Some e)" by blast
  then show ?thesis by (rule verify_token_first_parse_error)
qed

text \<open>
  C13. The only network call of the verifier is the key-directory \<^verbatim>\<open>http.Get\<close>,
  made at most once and only after the first parse returned no error.
\<close>

theorem verify_token_fetch_only_after_parse:
  assumes "c \<in> set (snd (verify_token env s))"
  shows "c = CallHttpGet jwks_url \<and> (\<exists>tok. jwt_parse env s keyfunc_secret = Ret (tok, None))"
  using assms verify_token_cases [of env s] by auto

text \<open>
  The empty token, which is what \<^verbatim>\<open>r.Header.Get\<close> returns for a request
  without the header, has one segment: the first parse fails and the process exits,
  without a key-set fetch.
\<close>

lemma verify_token_empty_token: "verify_token env [] = (Fatal FatalTokenParse, [])"
  by (simp add: verify_token_def jwt_parse_def parse_unverified_def)

text \<open>
  C24. An HMAC-signed token that passes the first parse and whose key identifier
  resolves is answered false after one key-set fetch: the second key function rejects
  its method.
\<close>

theorem verify_token_hmac_false:
  assumes "jwt_parse env s keyfunc_secret = Ret (Some t, None)"
    and "fetch_jwks env = Ret ks" and "resolve_cert (tok_header t ''kid'') ks = Ret cert"
  shows "verify_token env s = (Ret False, [CallHttpGet jwks_url])"
proof -
  from first_parse_ok_hmac [OF assms(1)] obtain t0 m where
    "parse_unverified env s = (Some t0, None)" and "tok_method t0 = Some m" and
    "family m = FamHMAC"
    by blast
  then have "second_parse env s cert = Ret False" by (rule second_parse_hmac)
  with assms show ?thesis by (simp add: verify_token_def)
qed

text \<open>
  C21. A key directory whose body does not decode does not stop verification: the decode
  error plays no part in the verifier's control flow, which goes on to resolve the
  token's key identifier in whatever part of the key set was decoded.
\<close>

theorem verify_token_decode_error_continues:
  assumes "jwt_parse env s keyfunc_secret = Ret (Some t, None)"
    and "http_get env jwks_url = Some body" and "decode_jwks env body = (partial, True)"
  shows "verify_token env s =
           (go_bind (resolve_cert (tok_header t ''kid'') partial) (second_parse env s), [CallHttpGet jwks_url])"
  using assms by (simp add: verify_token_def fetch_jwks_body)

text \<open>
  C22. jwt-go does check the claims: an HMAC-signed token whose \<^verbatim>\<open>exp\<close> has passed
  fails the first parse, and the verifier ends the process at line 68 before any
  network call, however good its signature.
\<close>

theorem verify_token_expired_fatal:
  assumes "parse_unverified env s = (Some t, None)" and "tok_method t = Some m" and "family m = FamHMAC"
    and "tok_claims t ''exp'' = Some (JNum e)" and "e \<noteq> 0" and "e < unix_now env"
  shows "verify_token env s = (Fatal FatalTokenParse, [])"
proof -
  obtain r where v: "method_verify env m (join_with (CHR ''.'') (take 2 (split_on (CHR ''.'') s)))
      (split_on (CHR ''.'') s ! 2) (KeyBytes ''AllYourBase'') = Ret r"
    using method_verify_bytes_Ret by blast
  have k: "keyfunc_secret t = Inr (KeyBytes ''AllYourBase'')" by (simp add: keyfunc_secret_def)
  from jwt_parse_claims_invalid [where kf = keyfunc_secret, OF assms(1) k map_claims_expired [of "tok_claims t", OF assms(4-6)]] v assms(2)
  obtain t' f where "jwt_parse env s keyfunc_secret = Ret (Some t', Some (ErrValidation f r))" by auto
  then show ?thesis by (rule verify_token_first_parse_error)
qed

text \<open>
  C3. The verifier returns normally exactly when the first parse succeeded, the key set
  was fetched and the token's key identifier resolved to a certificate; every other
  path of \<^verbatim>\<open>verifyToken\<close> ends the process or panics. It then returns false.
\<close>

theorem verify_token_ret_iff:
  "fst (verify_token env s) = Ret False \<longleftrightarrow>
     (\<exists>t ks cert. jwt_parse env s keyfunc_secret = Ret (Some t, None) \<and> fetch_jwks env = Ret ks \<and>
        resolve_cert (tok_header t ''kid'') ks = Ret cert)"
proof
  assume ret: "fst (verify_token env s) = Ret False"
  obtain tok e where p1: "jwt_parse env s keyfunc_secret = Ret (tok, e)"
    using first_parse_Ret by (metis surj_pair)
  with ret have e: "e = None" by (cases e) (simp_all add: verify_token_def)
  with p1 obtain t where p: "jwt_parse env s keyfunc_secret = Ret (Some t, None)"
    using jwt_parse_ok_token by (cases tok) blast+
  with ret show "\<exists>t ks cert. jwt_parse env s keyfunc_secret = Ret (Some t, None) \<and> fetch_jwks env = Ret ks \<and>
        resolve_cert (tok_header t ''kid'') ks = Ret cert"
    by (auto simp: verify_token_def Let_def go_bind_eq_Ret_conv split: go.splits)
next
  assume "\<exists>t ks cert. jwt_parse env s keyfunc_secret = Ret (Some t, None) \<and> fetch_jwks env = Ret ks \<and>
        resolve_cert (tok_header t ''kid'') ks = Ret cert"
  then obtain t ks cert where p: "jwt_parse env s keyfunc_secret = Ret (Some t, None)"
    and f: "fetch_jwks env = Ret ks" and c: "resolve_cert (tok_header t ''kid'') ks = Ret cert"
    by blast
  from first_parse_ok_hmac [OF p] obtain t0 m where
    "parse_unverified env s = (Some t0, None)" and "tok_method t0 = Some m" and "family m = FamHMAC"
    by blast
  then have "second_parse env s cert = Ret False" by (rule second_parse_hmac)
  with p f c show "fst (verify_token env s) = Ret False" by (simp add: verify_token_def)
qed

section \<open>Witnesses on the sample environment\<close>

theorem verify_token_non_hmac_fatal_witness:
  "(\<exists>t. parse_unverified sample_env ''r.c.s'' = (Some t, None) \<and> tok_method t = Some RS256)
   \<and> family RS256 \<noteq> FamHMAC
   \<and> verify_token sample_env ''r.c.s'' = (Fatal FatalTokenParse, [])"
proof -
  let ?t = "\<lparr>tok_raw = ''r.c.s'', tok_header = [''alg'' \<mapsto> JStr ''RS256'', ''kid'' \<mapsto> JStr ''k1''],
     tok_claims = Map.empty, tok_method = Some RS256, tok_signature = [], tok_valid = False\<rparr>"
  have pu: "parse_unverified sample_env ''r.c.s'' = (Some ?t, None)"
    by (simp add: sample_simps)
  have m: "tok_method ?t = Some RS256" by simp
  have f: "family RS256 \<noteq> FamHMAC" by simp
  show ?thesis using pu m f verify_token_non_hmac_fatal [OF pu m f] by blast
qed

theorem verify_token_fetch_only_after_parse_witness:
  "CallHttpGet jwks_url \<in> set (snd (verify_token sample_env ''h.c.s''))
   \<and> CallHttpGet jwks_url = CallHttpGet jwks_url
   \<and> (\<exists>tok. jwt_parse sample_env ''h.c.s'' keyfunc_secret = Ret (tok, None))"
proof -
  have c: "CallHttpGet jwks_url \<in> set (snd (verify_token sample_env ''h.c.s''))"
    by (simp add: verify_token_def sample_simps method_verify.simps Let_def)
  show ?thesis using c verify_token_fetch_only_after_parse [OF c] by blast
qed

theorem verify_token_hmac_false_witness:
  "verify_token sample_env ''h.c.s'' = (Ret False, [CallHttpGet jwks_url])"
proof -
  let ?t = "\<lparr>tok_raw = ''h.c.s'', tok_header = [''alg'' \<mapsto> JStr ''HS256'', ''kid'' \<mapsto> JStr ''k1''],
     tok_claims = Map.empty, tok_method = Some HS256, tok_signature = ''s'', tok_valid = True\<rparr>"
  have p: "jwt_parse sample_env ''h.c.s'' keyfunc_secret = Ret (Some ?t, None)"
    by (simp add: sample_simps method_verify.simps)
  have f: "fetch_jwks sample_env = Ret \<lparr>keys = [sample_key]\<rparr>"
    by (simp add: sample_simps)
  have r: "resolve_cert (tok_header ?t ''kid'') \<lparr>keys = [sample_key]\<rparr> = Ret (pem_wrap ''MIIC'')"
    by (simp add: sample_simps)
  show ?thesis by (rule verify_token_hmac_false [OF p f r])
qed

theorem verify_token_decode_error_continues_witness:
  "verify_token (sample_env\<lparr>decode_jwks := (\<lambda>b. (\<lparr>keys = [sample_key]\<rparr>, True))\<rparr>) ''h.c.s''
     = (Ret False, [CallHttpGet jwks_url])"
proof -
  let ?env = "sample_env\<lparr>decode_jwks := (\<lambda>b. (\<lparr>keys = [sample_key]\<rparr>, True))\<rparr>"
  let ?t = "\<lparr>tok_raw = ''h.c.s'', tok_header = [''alg'' \<mapsto> JStr ''HS256'', ''kid'' \<mapsto> JStr ''k1''],
     tok_claims = Map.empty, tok_method = Some HS256, tok_signature = ''s'', tok_valid = True\<rparr>"
  have p: "jwt_parse ?env ''h.c.s'' keyfunc_secret = Ret (Some ?t, None)"
    by (simp add: sample_simps method_verify.simps)
  have g: "http_get ?env jwks_url = Some ''{keys}''" by (simp add: sample_env_def)
  have d: "decode_jwks ?env ''{keys}'' = (\<lparr>keys = [sample_key]\<rparr>, True)" by simp
  have r: "go_bind (resolve_cert (tok_header ?t ''kid'') \<lparr>keys = [sample_key]\<rparr>) (second_parse ?env ''h.c.s'')
      = Ret False"
    by (simp add: sample_simps method_verify.simps Let_def)
  show ?thesis using verify_token_decode_error_continues [OF p g d] r by simp
qed

theorem verify_token_expired_fatal_witness:
  "parse_unverified expired_env ''h.c.s'' =
     (Some \<lparr>tok_raw = ''h.c.s'', tok_header = [''alg'' \<mapsto> JStr ''HS256'', ''kid'' \<mapsto> JStr ''k1''],
            tok_claims = [''exp'' \<mapsto> JNum 50], tok_method = Some HS256, tok_signature = [], tok_valid = False\<rparr>, None)
   \<and> verify_token expired_env ''h.c.s'' = (Fatal FatalTokenParse, [])"
proof -
  let ?t = "\<lparr>tok_raw = ''h.c.s'', tok_header = [''alg'' \<mapsto> JStr ''HS256'', ''kid'' \<mapsto> JStr ''k1''],
            tok_claims = [''exp'' \<mapsto> JNum 50], tok_method = Some HS256, tok_signature = [], tok_valid = False\<rparr>"
  have pu: "parse_unverified expired_env ''h.c.s'' = (Some ?t, None)"
    by (simp add: expired_env_def sample_simps)
  have "verify_token expired_env ''h.c.s'' = (Fatal FatalTokenParse, [])"
    by (rule verify_token_expired_fatal [OF pu, of HS256 50]) (simp_all add: expired_env_def)
  with pu show ?thesis by simp
qed

end
