(* ===== verification/Paths.thy ===== *)
theory Paths
  imports Prelude
begin

text \<open>
  URL-path cleaning as net/http's \<^verbatim>\<open>ServeMux\<close> does it before it matches a
  request (\<^verbatim>\<open>cleanPath\<close>, built on \<^verbatim>\<open>path.Clean\<close>), so that the model of
  \<^verbatim>\<open>main\<close> can say which requests are redirected rather than routed. The elements
  between slashes are split with the prelude's \<open>split_on\<close> and put back with
  \<open>join_with\<close>. Lemmas: every cleaned path is a slash followed by elements that are
  neither empty, \<^verbatim>\<open>.\<close> nor \<^verbatim>\<open>..\<close>, optionally with one trailing
  slash, and cleaning is idempotent, so a redirect target is never redirected again.
\<close>

section \<open>Definitions\<close>

text \<open>
  The element loop of \<^verbatim>\<open>path.Clean\<close> on a rooted path, over the pieces between
  slashes: empty pieces and \<^verbatim>\<open>.\<close> are dropped, \<^verbatim>\<open>..\<close> removes the element
  before it (at the root there is none, and it is dropped); \<open>acc\<close> holds the kept
  elements, last first.
\<close>

fun clean_elems :: "string list \<Rightarrow> string list \<Rightarrow> string list" where
  "clean_elems acc [] = rev acc"
| "clean_elems acc (e # es) =
     (if e = [] \<or> e = ''.'' then clean_elems acc es
      else if e = ''..'' then clean_elems (drop 1 acc) es
      else clean_elems (e # acc) es)"

text \<open>\<^verbatim>\<open>path.Clean\<close> of a path that starts with a slash.\<close>

definition path_clean_rooted :: "string \<Rightarrow> string" where
  "path_clean_rooted p = ''/'' @ join_with (CHR ''/'') (clean_elems [] (split_on (CHR ''/'') p))"

text \<open>
  \<^verbatim>\<open>cleanPath\<close> of net/http's \<^verbatim>\<open>ServeMux\<close>: root the path, clean it, and keep
  a trailing slash.
\<close>

definition clean_path :: "string \<Rightarrow> string" where
  "clean_path p =
     (let p1 = (if p = [] then ''/'' else if hd p \<noteq> CHR ''/'' then CHR ''/'' # p else p);
          np = path_clean_rooted p1
      in if last p1 = CHR ''/'' \<and> np \<noteq> ''/'' then np @ ''/'' else np)"

text \<open>An element of a cleaned path: not empty, not a dot segment, no slash.\<close>

definition normal_elem :: "string \<Rightarrow> bool" where
  "normal_elem e = (e \<noteq> [] \<and> e \<noteq> ''.'' \<and> e \<noteq> ''..'' \<and> CHR ''/'' \<notin> set e)"

section \<open>Lemmas on path cleaning\<close>

lemma normal_elemI:
  "e \<noteq> [] \<Longrightarrow> e \<noteq> ''.'' \<Longrightarrow> e \<noteq> ''..'' \<Longrightarrow> CHR ''/'' \<notin> set e \<Longrightarrow> normal_elem e"
  by (simp add: normal_elem_def)

lemma clean_elems_normal:
  "\<forall>e \<in> set acc. normal_elem e \<Longrightarrow> \<forall>e \<in> set es. CHR ''/'' \<notin> set e \<Longrightarrow>
   \<forall>e \<in> set (clean_elems acc es). normal_elem e"
proof (induction acc es rule: clean_elems.induct)
  case (1 acc)
  then show ?case by simp
next
  case (2 acc e es)
  have es: "\<forall>e \<in> set es. CHR ''/'' \<notin> set e" and e: "CHR ''/'' \<notin> set e"
    using "2.prems"(2) by simp_all
  show ?case
  proof (cases "e = [] \<or> e = ''.''")
    case True
    from "2.IH"(1)[OF True "2.prems"(1) es] True show ?thesis
      by (simp only: clean_elems.simps if_True)
  next
    case skip: False
    show ?thesis
    proof (cases "e = ''..''")
      case True
      have "\<forall>x \<in> set (drop 1 acc). normal_elem x"
        using "2.prems"(1) by (meson in_set_dropD)
      from "2.IH"(2)[OF skip True this es] skip True show ?thesis
        by (simp only: clean_elems.simps if_False if_True simp_thms)
    next
      case False
      have "normal_elem e" using skip False e by (intro normal_elemI) simp_all
      then have "\<forall>x \<in> set (e # acc). normal_elem x" using "2.prems"(1) by simp
      from "2.IH"(3)[OF skip False this es] skip False show ?thesis
        by (simp only: clean_elems.simps if_False)
    qed
  qed
qed

lemma clean_elems_of_normal:
  "\<forall>e \<in> set es. normal_elem e \<Longrightarrow> clean_elems acc es = rev acc @ es"
proof (induction acc es rule: clean_elems.induct)
  case (2 acc e es)
  then have "normal_elem e" by simp
  then have "\<not> (e = [] \<or> e = ''.'') \<and> e \<noteq> ''..''" by (simp add: normal_elem_def)
  with 2 show ?case by simp
qed simp

lemma split_rooted_join:
  assumes "\<forall>e \<in> set segs. normal_elem e"
  shows "clean_elems [] (split_on (CHR ''/'') (''/'' @ join_with (CHR ''/'') segs)) = segs"
proof (cases "segs = []")
  case True
  then show ?thesis by simp
next
  case False
  have "\<forall>p \<in> set segs. CHR ''/'' \<notin> set p" using assms by (simp add: normal_elem_def)
  with False have "split_on (CHR ''/'') (join_with (CHR ''/'') segs) = segs"
    by (rule split_join_with)
  with assms show ?thesis by (simp add: clean_elems_of_normal)
qed

lemma clean_elems_snoc_empty: "clean_elems acc (es @ [[]]) = clean_elems acc es"
  by (induction acc es rule: clean_elems.induct) simp_all

lemma path_clean_rooted_form:
  "\<exists>segs. (\<forall>e \<in> set segs. normal_elem e) \<and>
     path_clean_rooted p = ''/'' @ join_with (CHR ''/'') segs"
proof -
  have "\<forall>e \<in> set (split_on (CHR ''/'') p). CHR ''/'' \<notin> set e"
    by (blast dest: split_on_pieces)
  then have "\<forall>e \<in> set (clean_elems [] (split_on (CHR ''/'') p)). normal_elem e"
    by (intro clean_elems_normal) simp_all
  then show ?thesis by (auto simp: path_clean_rooted_def)
qed

lemma join_normal_last:
  assumes "\<forall>e \<in> set segs. normal_elem e" "segs \<noteq> []"
  shows "last (''/'' @ join_with (CHR ''/'') segs) \<noteq> CHR ''/''"
proof -
  obtain pre where pre: "join_with (CHR ''/'') segs = pre @ last segs"
    using join_with_last [OF assms(2)] by blast
  have "normal_elem (last segs)" using assms by simp
  then have ne: "last segs \<noteq> []" and sl: "CHR ''/'' \<notin> set (last segs)"
    by (simp_all add: normal_elem_def)
  have "last (last segs) \<in> set (last segs)" using ne by (rule last_in_set)
  then have "last (last segs) \<noteq> CHR ''/''" using sl by (metis)
  moreover have "last (''/'' @ join_with (CHR ''/'') segs) = last (last segs)" using pre ne by simp
  ultimately show ?thesis by simp
qed

lemma path_clean_rooted_join:
  assumes "\<forall>e \<in> set segs. normal_elem e"
  shows "path_clean_rooted (''/'' @ join_with (CHR ''/'') segs) = ''/'' @ join_with (CHR ''/'') segs"
    and "path_clean_rooted (''/'' @ join_with (CHR ''/'') segs @ ''/'') = ''/'' @ join_with (CHR ''/'') segs"
proof -
  show "path_clean_rooted (''/'' @ join_with (CHR ''/'') segs) = ''/'' @ join_with (CHR ''/'') segs"
    using split_rooted_join [OF assms] by (simp add: path_clean_rooted_def)
  have "split_on (CHR ''/'') (''/'' @ join_with (CHR ''/'') segs @ ''/'') =
        split_on (CHR ''/'') (''/'' @ join_with (CHR ''/'') segs) @ [[]]"
    using split_on_snoc_sep [of "CHR ''/''" "''/'' @ join_with (CHR ''/'') segs"] by simp
  then show "path_clean_rooted (''/'' @ join_with (CHR ''/'') segs @ ''/'') = ''/'' @ join_with (CHR ''/'') segs"
    using split_rooted_join [OF assms] by (simp add: path_clean_rooted_def clean_elems_snoc_empty)
qed

lemma clean_path_rooted:
  "q \<noteq> [] \<Longrightarrow> hd q = CHR ''/'' \<Longrightarrow>
   clean_path q = (if last q = CHR ''/'' \<and> path_clean_rooted q \<noteq> ''/''
                   then path_clean_rooted q @ ''/'' else path_clean_rooted q)"
  by (simp add: clean_path_def Let_def)

lemma join_normal_ne:
  "\<forall>e \<in> set segs. normal_elem e \<Longrightarrow> segs \<noteq> [] \<Longrightarrow> join_with (CHR ''/'') segs \<noteq> []"
proof (cases segs)
  case (Cons x xs)
  assume "\<forall>e \<in> set segs. normal_elem e"
  with Cons have "x \<noteq> []" by (simp add: normal_elem_def)
  with Cons show ?thesis by (cases xs) simp_all
qed simp

lemma clean_path_join:
  assumes "\<forall>e \<in> set segs. normal_elem e"
  shows "clean_path (''/'' @ join_with (CHR ''/'') segs) = ''/'' @ join_with (CHR ''/'') segs"
proof (cases "segs = []")
  case True
  then show ?thesis by (simp add: clean_path_def path_clean_rooted_def)
next
  case False
  have "last (''/'' @ join_with (CHR ''/'') segs) \<noteq> CHR ''/''" using join_normal_last [OF assms False] .
  then show ?thesis using clean_path_rooted path_clean_rooted_join(1) [OF assms] by simp
qed

lemma clean_path_join_slash:
  assumes "\<forall>e \<in> set segs. normal_elem e" and "segs \<noteq> []"
  shows "clean_path (''/'' @ join_with (CHR ''/'') segs @ ''/'') = ''/'' @ join_with (CHR ''/'') segs @ ''/''"
proof -
  have "join_with (CHR ''/'') segs \<noteq> []" using join_normal_ne [OF assms] .
  then show ?thesis using clean_path_rooted path_clean_rooted_join(2) [OF assms(1)] by simp
qed

lemma clean_path_form:
  "\<exists>segs. (\<forall>e \<in> set segs. normal_elem e) \<and>
     (clean_path p = ''/'' @ join_with (CHR ''/'') segs \<or>
      segs \<noteq> [] \<and> clean_path p = ''/'' @ join_with (CHR ''/'') segs @ ''/'')"
proof -
  define p1 where "p1 = (if p = [] then ''/'' else if hd p \<noteq> CHR ''/'' then CHR ''/'' # p else p)"
  obtain segs where segs: "\<forall>e \<in> set segs. normal_elem e"
    and np: "path_clean_rooted p1 = ''/'' @ join_with (CHR ''/'') segs"
    using path_clean_rooted_form by blast
  have cp: "clean_path p = (if last p1 = CHR ''/'' \<and> path_clean_rooted p1 \<noteq> ''/''
      then path_clean_rooted p1 @ ''/'' else path_clean_rooted p1)"
    unfolding clean_path_def p1_def [symmetric] Let_def ..
  have "segs \<noteq> []" if "path_clean_rooted p1 \<noteq> ''/''" using that np by auto
  with segs np cp show ?thesis by (metis append_assoc)
qed

lemma clean_path_idem [simp]: "clean_path (clean_path p) = clean_path p"
  using clean_path_form [of p] clean_path_join clean_path_join_slash by metis

end
