(* ===== verification/Http.thy ===== *)
theory Http
  imports Paths
begin

text \<open>
  The net/http behaviour the handlers and \<^verbatim>\<open>main\<close> of \<^verbatim>\<open>src/main.go\<close> rely on:
  \<^item> header names: \<^verbatim>\<open>Header.Get\<close> and \<^verbatim>\<open>Header.Set\<close> canonicalise the name
    (\<^verbatim>\<open>textproto.CanonicalMIMEHeaderKey\<close>: upper case at the start and after each
    hyphen, lower case elsewhere, unchanged when a byte is not a token character);
  \<^item> the \<^verbatim>\<open>ResponseWriter\<close>: a header map, the status line committed by the first
    \<^verbatim>\<open>WriteHeader\<close> (later calls are superfluous and ignored; \<^verbatim>\<open>Write\<close> commits
    200 first), and the body; \<^verbatim>\<open>http.Error\<close> sets its headers, writes the status
    and the message with a newline;
  \<^item> \<^verbatim>\<open>ServeMux\<close>: a request other than \<^verbatim>\<open>CONNECT\<close> whose path is not
    clean (\<open>clean_path\<close> of theory \<open>Paths\<close>) is redirected by
    \<^verbatim>\<open>http.Redirect\<close> with 301 to the cleaned path; otherwise patterns without a
    trailing slash match exactly one path, and no match gives \<^verbatim>\<open>http.NotFound\<close>.
  Lemmas: what each writer operation does to the status, the headers and the body, used
  by the handler proofs.
\<close>

section \<open>Header names\<close>

text \<open>\<^verbatim>\<open>validHeaderFieldByte\<close>: letters, digits and \<^verbatim>\<open>!#$%&'*+-.^_`|~\<close>.\<close>

definition valid_header_byte :: "char \<Rightarrow> bool" where
  "valid_header_byte c =
     (let n = of_char c :: nat in
      (48 \<le> n \<and> n \<le> 57) \<or> (65 \<le> n \<and> n \<le> 90) \<or> (97 \<le> n \<and> n \<le> 122) \<or>
      n \<in> {33, 35, 36, 37, 38, 39, 42, 43, 45, 46, 94, 95, 96, 124, 126})"

definition is_lower_ascii :: "char \<Rightarrow> bool" where
  "is_lower_ascii c = (97 \<le> (of_char c :: nat) \<and> (of_char c :: nat) \<le> 122)"

definition is_upper_ascii :: "char \<Rightarrow> bool" where
  "is_upper_ascii c = (65 \<le> (of_char c :: nat) \<and> (of_char c :: nat) \<le> 90)"

text \<open>One byte of \<^verbatim>\<open>canonicalMIMEHeaderKey\<close>: \<open>upper\<close> is true at the start and after a hyphen.\<close>

definition canon_char :: "bool \<Rightarrow> char \<Rightarrow> char" where
  "canon_char upper c =
     (if upper \<and> is_lower_ascii c then char_of (of_char c - (32::nat))
      else if \<not> upper \<and> is_upper_ascii c then char_of (of_char c + (32::nat))
      else c)"

text \<open>The byte loop of \<^verbatim>\<open>canonicalMIMEHeaderKey\<close>.\<close>

fun canon_from :: "bool \<Rightarrow> string \<Rightarrow> string" where
  "canon_from upper [] = []"
| "canon_from upper (c # cs) =
     (let c' = canon_char upper c in c' # canon_from (c' = CHR ''-'') cs)"

definition canonical_header_key :: "string \<Rightarrow> string" where
  "canonical_header_key s = (if list_all valid_header_byte s then canon_from True s else s)"

type_synonym http_header = "string \<rightharpoonup> string list"

text \<open>\<^verbatim>\<open>Header.Get\<close>: the first value under the canonical name, or the empty string.\<close>

definition header_get :: "http_header \<Rightarrow> string \<Rightarrow> string" where
  "header_get h k = (case h (canonical_header_key k) of Some (v # _) \<Rightarrow> v | _ \<Rightarrow> [])"

text \<open>\<^verbatim>\<open>Header.Set\<close>: the canonical name now holds exactly this value.\<close>

definition header_set :: "http_header \<Rightarrow> string \<Rightarrow> string \<Rightarrow> http_header" where
  "header_set h k v = h(canonical_header_key k \<mapsto> [v])"

definition header_del :: "http_header \<Rightarrow> string \<Rightarrow> http_header" where
  "header_del h k = h(canonical_header_key k := None)"

section \<open>Requests and the response writer\<close>

text \<open>
  An inbound request: its method, its URL path (\<^verbatim>\<open>r.URL.Path\<close>, taken to be a path
  that needs no percent-escaping) and its header, keyed by canonical names.
\<close>

record http_request =
  req_method :: string
  req_path :: string
  req_header :: http_header

text \<open>
  The writer: the header map being built, the committed status and header snapshot
  (\<open>None\<close> before the first \<^verbatim>\<open>WriteHeader\<close>/\<^verbatim>\<open>Write\<close>) and the body.
\<close>

record response =
  resp_header :: http_header
  resp_committed :: "(nat \<times> http_header) option"
  resp_body :: string

definition resp_init :: response where
  "resp_init = \<lparr>resp_header = Map.empty, resp_committed = None, resp_body = []\<rparr>"

definition write_header :: "nat \<Rightarrow> response \<Rightarrow> response" where
  "write_header code w =
     (case resp_committed w of
        None \<Rightarrow> w\<lparr>resp_committed := Some (code, resp_header w)\<rparr>
      | Some _ \<Rightarrow> w)"

text \<open>\<^verbatim>\<open>Write\<close>, and so \<^verbatim>\<open>fmt.Fprintf(w, ..)\<close>: commit 200 if nothing was committed.\<close>

definition write_body :: "string \<Rightarrow> response \<Rightarrow> response" where
  "write_body b w = (let w' = write_header 200 w in w'\<lparr>resp_body := resp_body w' @ b\<rparr>)"

definition set_resp_header :: "string \<Rightarrow> string \<Rightarrow> response \<Rightarrow> response" where
  "set_resp_header k v w = w\<lparr>resp_header := header_set (resp_header w) k v\<rparr>"

text \<open>\<^verbatim>\<open>http.Error(w, msg, code)\<close>.\<close>

definition http_error :: "string \<Rightarrow> nat \<Rightarrow> response \<Rightarrow> response" where
  "http_error msg code w =
     write_body (msg @ nl)
       (write_header code
         (set_resp_header ''X-Content-Type-Options'' ''nosniff''
           (set_resp_header ''Content-Type'' ''text/plain; charset=utf-8''
             (w\<lparr>resp_header := header_del (resp_header w) ''Content-Length''\<rparr>))))"

definition not_found :: "response \<Rightarrow> response" where
  "not_found w = http_error ''404 page not found'' 404 w"

text \<open>The status the client sees once the handler has returned.\<close>

definition final_status :: "response \<Rightarrow> nat" where
  "final_status w = (case resp_committed w of None \<Rightarrow> 200 | Some (c, _) \<Rightarrow> c)"

text \<open>The writer's operations as one step relation: its lifecycle.\<close>

section \<open>ServeMux\<close>

text \<open>
  A \<^verbatim>\<open>ServeMux\<close> as the list of its registrations; a pattern without a trailing
  slash matches exactly its path. \<^verbatim>\<open>HandleFunc\<close> panics on a pattern already
  registered.
\<close>

type_synonym 'h serve_mux = "(string \<times> 'h) list"

definition mux_handle :: "'h serve_mux \<Rightarrow> string \<Rightarrow> 'h \<Rightarrow> 'h serve_mux go" where
  "mux_handle mux pat h = (if pat \<in> fst ` set mux then Panic PanicMuxConflict else Ret (mux @ [(pat, h)]))"

definition mux_lookup :: "'h serve_mux \<Rightarrow> string \<Rightarrow> 'h option" where
  "mux_lookup mux path = map_of mux path"

text \<open>
  \<^verbatim>\<open>ServeMux.Handler\<close>: a \<^verbatim>\<open>CONNECT\<close> request is matched on its path as it
  is; any other request whose path \<^verbatim>\<open>cleanPath\<close> changes is redirected to the
  cleaned path, and one whose path is clean is matched, or gets \<^verbatim>\<open>NotFoundHandler\<close>.
\<close>

datatype 'h mux_match = MuxHandler 'h | MuxRedirect string | MuxNotFound

definition mux_match_path :: "'h serve_mux \<Rightarrow> string \<Rightarrow> 'h mux_match" where
  "mux_match_path mux p = (case mux_lookup mux p of Some h \<Rightarrow> MuxHandler h | None \<Rightarrow> MuxNotFound)"

definition mux_find :: "'h serve_mux \<Rightarrow> http_request \<Rightarrow> 'h mux_match" where
  "mux_find mux r =
     (if req_method r = ''CONNECT'' then mux_match_path mux (req_path r)
      else let p = clean_path (req_path r)
           in if p \<noteq> req_path r then MuxRedirect p else mux_match_path mux p)"

section \<open>Redirects\<close>

text \<open>\<^verbatim>\<open>htmlEscape\<close>: the five characters \<^verbatim>\<open>& < > " '\<close> as entities.\<close>

fun html_escape :: "string \<Rightarrow> string" where
  "html_escape [] = []"
| "html_escape (c # cs) =
     (if c = CHR ''&'' then ''&amp;'' else if c = CHR ''<'' then ''&lt;''
      else if c = CHR ''>'' then ''&gt;'' else if c = CHR 0x22 then ''&#34;''
      else if c = CHR 0x27 then ''&#39;'' else [c]) @ html_escape cs"

definition redirect_body :: "string \<Rightarrow> string" where
  "redirect_body url = ''<a href='' @ [CHR 0x22] @ html_escape url @ [CHR 0x22] @ ''>Moved Permanently</a>.'' @ nl @ nl"

text \<open>
  \<^verbatim>\<open>http.Redirect(w, r, url, 301)\<close> for a rooted \<open>url\<close>: the url is cleaned again
  (\<^verbatim>\<open>path.Clean\<close> keeping a trailing slash, that is \<open>clean_path\<close>), set as
  \<^verbatim>\<open>Location\<close>; without a \<^verbatim>\<open>Content-Type\<close> already set, a GET or HEAD gets
  an HTML one, the status is written, and a GET gets the link as its body
  (\<^verbatim>\<open>fmt.Fprintln\<close> adds the second newline).
\<close>

definition redirect_moved :: "string \<Rightarrow> string \<Rightarrow> response \<Rightarrow> response" where
  "redirect_moved method url w =
     (let url' = clean_path url;
          had_ct = (resp_header w ''Content-Type'' \<noteq> None);
          w1 = set_resp_header ''Location'' url' w;
          w2 = (if \<not> had_ct \<and> (method = ''GET'' \<or> method = ''HEAD'')
                then set_resp_header ''Content-Type'' ''text/html; charset=utf-8'' w1 else w1);
          w3 = write_header 301 w2
      in if \<not> had_ct \<and> method = ''GET'' then write_body (redirect_body url') w3 else w3)"

lemmas http_defs = header_get_def header_set_def header_del_def write_header_def write_body_def
  set_resp_header_def http_error_def not_found_def final_status_def resp_init_def

section \<open>Lemmas on the response writer\<close>

lemma write_header_committed [simp]:
  "resp_committed w = Some x \<Longrightarrow> write_header c w = w"
  by (simp add: write_header_def)

lemma resp_committed_write_header:
  "resp_committed (write_header c w) = Some (case resp_committed w of None \<Rightarrow> (c, resp_header w) | Some x \<Rightarrow> x)"
  by (simp add: write_header_def split: option.split)

lemma resp_body_write_header [simp]: "resp_body (write_header c w) = resp_body w"
  by (simp add: write_header_def split: option.split)

lemma resp_header_write_header [simp]: "resp_header (write_header c w) = resp_header w"
  by (simp add: write_header_def split: option.split)

lemma write_body_simps [simp]:
  "resp_body (write_body b w) = resp_body w @ b"
  "resp_committed (write_body b w) = resp_committed (write_header 200 w)"
  "resp_header (write_body b w) = resp_header w"
  by (simp_all add: write_body_def Let_def)

lemma set_resp_header_simps [simp]:
  "resp_body (set_resp_header k v w) = resp_body w"
  "resp_committed (set_resp_header k v w) = resp_committed w"
  by (simp_all add: set_resp_header_def)

lemma http_error_simps:
  "resp_body (http_error m c w) = resp_body w @ m @ nl"
  "resp_committed w \<noteq> None \<Longrightarrow> resp_committed (http_error m c w) = resp_committed w"
  "resp_committed w = None \<Longrightarrow> \<exists>h. resp_committed (http_error m c w) = Some (c, h)"
  by (auto simp: http_error_def resp_committed_write_header)

end
