(* ===== verification/Handlers.thy ===== *)
theory Handlers
  imports Verify Http "HOL-Library.Sublist"
begin

text \<open>
  The two request handlers of \<^verbatim>\<open>src/main.go\<close>. Each reads the
  \<^verbatim>\<open>X-Forwarded-Authorization\<close> header (an absent header reads as the empty
  string) and talks to one downstream collaborator:
  \<^item> \<^verbatim>\<open>workflowHandler\<close> (lines 122--150): \<^verbatim>\<open>executions.NewClient\<close>, then
    \<^verbatim>\<open>CreateExecution\<close> with the workflow's resource path and the JSON argument built
    by string concatenation; it never verifies the token;
  \<^item> \<^verbatim>\<open>api2Handler\<close> (lines 153--175): \<^verbatim>\<open>verifyToken\<close> with its boolean dropped,
    \<^verbatim>\<open>idtoken.NewClient\<close>, and a GET of the second API carrying the token in the
    \<^verbatim>\<open>auth0-token\<close> header.
  The collaborators are environment functions (\<open>bff_env\<close>, extending the verifier's
  environment). A handler's result is its outcome, the response writer after it, and the
  external calls it made in order.
  The argument's specification is \<open>json_flat_object\<close>, a reader for JSON objects
  whose members are strings without escapes.
  Lemmas: the proxy call of api2 is only ever made after the verifier said false, and
  every normal return of api2 is a 200 relay of the second API's answer; an
  RS256 token ends the process before the proxy call; the handler's external calls come
  in the code's order and stop where it stops; a failed identity-token client
  panics on the nil client and a failed proxy call ends the process; the workflow
  handler triggers an execution for every request, with or without a token, its argument
  holds exactly the token when the token has no quotes and extra members of the caller's
  choice when it has; a failed client is answered 500 without an execution, and a failed
  execution keeps the status 500 and appends the nil execution to the error text; a
  created execution is answered 200.
\<close>

section \<open>Configuration and collaborators\<close>

definition Api2Url :: string where
  "Api2Url = ''https://fika-api2-nakagome-wsgwmfbvhq-uc.a.run.app''"

definition ProjectId :: string where
  "ProjectId = ''kaigofika-poc01''"

definition Location :: string where
  "Location = ''us-central1''"

definition workflowName :: string where
  "workflowName = ''fs-workflow-nakagome''"

text \<open>
  \<open>exec_new_client\<close>: the error of \<^verbatim>\<open>executions.NewClient\<close>, if any;
  \<open>create_execution\<close>: \<^verbatim>\<open>CreateExecution\<close>'s error text or the execution as
  \<^verbatim>\<open>%v\<close> prints it; \<open>idtoken_new_client\<close>: the error of
  \<^verbatim>\<open>idtoken.NewClient(ctx, audience)\<close>; \<open>client_do\<close>: the transport error of
  \<^verbatim>\<open>client.Do\<close> or the response body.
\<close>

record 'pk bff_env = "'pk jwt_env" +
  exec_new_client :: "string option"
  create_execution :: "string \<Rightarrow> string \<Rightarrow> string + string"
  idtoken_new_client :: "string \<Rightarrow> string option"
  client_do :: "string \<Rightarrow> http_header \<Rightarrow> string + string"

type_synonym handler_result = "unit go \<times> response \<times> ext_call list"

section \<open>workflowHandler\<close>

definition auth_header :: string where
  "auth_header = ''X-Forwarded-Authorization''"

text \<open>Line 138: the workflow's resource path.\<close>

definition workflow_parent :: string where
  "workflow_parent = ''projects/'' @ ProjectId @ ''/locations/'' @ Location @ ''/workflows/'' @ workflowName"

text \<open>Line 140: the execution argument, the token pasted between two string literals.\<close>

definition workflow_argument :: "string \<Rightarrow> string" where
  \<open>workflow_argument tok = ''{"auth0-token":"'' @ tok @ ''"}''\<close>

text \<open>
  The specification of the argument: a reader for flat JSON objects whose members are
  strings without escapes. Split at the double quotes, such an object is an opening
  brace, then key, colon, value, and a comma or the closing brace, per member.
\<close>

fun json_members :: "string list \<Rightarrow> (string \<times> string) list option" where
  "json_members (k # c # v # e # rest) =
     (if c = '':'' \<and> CHR 0x5C \<notin> set k \<and> CHR 0x5C \<notin> set v then
        (if e = ''}'' \<and> rest = [] then Some [(k, v)]
         else if e = '','' then map_option (Cons (k, v)) (json_members rest) else None)
      else None)"
| "json_members _ = None"

definition json_flat_object :: "string \<Rightarrow> (string \<times> string) list option" where
  "json_flat_object s =
     (case split_on (CHR 0x22) s of p # rest \<Rightarrow> if p = ''{'' then json_members rest else None | [] \<Rightarrow> None)"

text \<open>
  Lines 122--150. A failed \<^verbatim>\<open>NewClient\<close> answers 500 and returns. A failed
  \<^verbatim>\<open>CreateExecution\<close> answers 500 but does not return: the following
  \<^verbatim>\<open>WriteHeader(200)\<close> is superfluous and the nil execution is printed as
  \<^verbatim>\<open><nil>\<close> after the error text.
\<close>

definition workflow_handler ::
  "('pk, 'e) bff_env_scheme \<Rightarrow> http_request \<Rightarrow> response \<Rightarrow> handler_result" where
  "workflow_handler env r w =
     (let tok = header_get (req_header r) auth_header in
      case exec_new_client env of
        Some err \<Rightarrow>
          (Ret (), http_error (''executions.NewClient failed...: '' @ err) 500 w, [CallExecNewClient])
      | None \<Rightarrow>
          (let calls = [CallExecNewClient, CallCreateExecution workflow_parent (workflow_argument tok)] in
           case create_execution env workflow_parent (workflow_argument tok) of
             Inl err \<Rightarrow>
               (Ret (),
                write_body (''<nil>'' @ nl)
                  (write_header 200 (http_error (''client.CreateExecution failed...: '' @ err) 500 w)),
                calls)
           | Inr exec \<Rightarrow> (Ret (), write_body (exec @ nl) (write_header 200 w), calls)))"

section \<open>api2Handler\<close>

text \<open>Lines 163--164: the outbound request's header, \<^verbatim>\<open>Header.Set("auth0-token", token)\<close>.\<close>

definition proxy_header :: "string \<Rightarrow> http_header" where
  "proxy_header tok = header_set Map.empty ''auth0-token'' tok"

text \<open>
  Lines 153--175. The verifier's outcome is only observed through its Fatal or
  Panic; its boolean is dropped. A failed \<^verbatim>\<open>idtoken.NewClient\<close> answers 500 and
  does not return, so \<^verbatim>\<open>client.Do\<close> runs on a nil client and panics before sending.
  A transport error of \<^verbatim>\<open>client.Do\<close> is fatal (line 167); otherwise the body is
  relayed with status 200.
\<close>

definition api2_handler ::
  "('pk, 'e) bff_env_scheme \<Rightarrow> http_request \<Rightarrow> response \<Rightarrow> handler_result" where
  "api2_handler env r w =
     (let tok = header_get (req_header r) auth_header;
          (v, calls0) = verify_token env tok
      in case v of
           Fatal f \<Rightarrow> (Fatal f, w, calls0)
         | Panic p \<Rightarrow> (Panic p, w, calls0)
         | Ret _ \<Rightarrow>
             (let calls1 = calls0 @ [CallIdtokenNewClient Api2Url] in
              case idtoken_new_client env Api2Url of
                Some err \<Rightarrow>
                  (Panic PanicNilDeref, http_error (''idtoken.NewClient failed...: '' @ err) 500 w, calls1)
              | None \<Rightarrow>
                  (let calls2 = calls1 @ [CallProxyDo Api2Url (proxy_header tok)] in
                   case client_do env Api2Url (proxy_header tok) of
                     Inl err \<Rightarrow> (Fatal FatalProxyDo, w, calls2)
                   | Inr body \<Rightarrow> (Ret (), write_body (body @ nl) (write_header 200 w), calls2))))"

section \<open>Sample environment\<close>

text \<open>
  The verifier's sample environment with working collaborators: every execution is
  created, the identity-token client is built and the second API answers
  \<^verbatim>\<open>{"status":"ok"}\<close>.
\<close>

definition sample_body :: string where
  \<open>sample_body = ''{"status":"ok"}''\<close>

definition sample_bff_env :: "(nat, unit) bff_env_scheme" where
  "sample_bff_env =
     \<lparr>http_get = http_get sample_env, decode_jwks = decode_jwks sample_env,
      seg_decodes = seg_decodes sample_env, hmac_ok = hmac_ok sample_env,
      rsa_ok = rsa_ok sample_env, decode_header = decode_header sample_env,
      decode_claims = decode_claims sample_env, unix_now = unix_now sample_env,
      parse_pem = parse_pem sample_env,
      exec_new_client = None, create_execution = (\<lambda>p a. Inr ''exec-1''),
      idtoken_new_client = (\<lambda>a. None), client_do = (\<lambda>u h. Inr sample_body), \<dots> = ()\<rparr>"

definition sample_request :: "string \<Rightarrow> http_request" where
  "sample_request tok = \<lparr>req_method = ''GET'', req_path = ''/api2'', req_header = [auth_header \<mapsto> [tok]]\<rparr>"

section \<open>Lemmas on the handlers\<close>

lemma auth_header_canonical [simp]: "canonical_header_key auth_header = auth_header"
  by code_simp

lemma header_get_absent: "req_header r auth_header = None \<Longrightarrow> header_get (req_header r) auth_header = []"
  by (simp add: header_get_def)

lemma header_get_sample [simp]: "header_get (req_header (sample_request tok)) auth_header = tok"
  by (simp add: header_get_def sample_request_def)

lemma workflow_argument_join:
  "workflow_argument tok = join_with (CHR 0x22) [''{'', ''auth0-token'', '':'', tok, ''}'']"
  by (simp add: workflow_argument_def)

lemma workflow_argument_split:
  "CHR 0x22 \<notin> set tok \<Longrightarrow>
   split_on (CHR 0x22) (workflow_argument tok) = [''{'', ''auth0-token'', '':'', tok, ''}'']"
  unfolding workflow_argument_join by (rule split_join_with) simp_all

lemma verify_token_calls: "snd (verify_token env s) = [] \<or> snd (verify_token env s) = [CallHttpGet jwks_url]"
  using verify_token_cases [of env s] by auto

lemma sample_bff_verify_hmac_upd:
  "verify_token (sample_bff_env\<lparr>idtoken_new_client := f, client_do := g\<rparr>) ''h.c.s''
     = (Ret False, [CallHttpGet jwks_url])"
  by (simp add: verify_token_def sample_simps method_verify.simps Let_def sample_bff_env_def)

lemma sample_bff_verify_hmac:
  "verify_token sample_bff_env ''h.c.s'' = (Ret False, [CallHttpGet jwks_url])"
  using sample_bff_verify_hmac_upd [where f = "idtoken_new_client sample_bff_env" and g = "client_do sample_bff_env"]
  by simp

lemma api2_after_verify:
  assumes "header_get (req_header r) auth_header = tok" and "fst (verify_token env tok) = Ret b"
  shows "api2_handler env r w =
    (let calls1 = snd (verify_token env tok) @ [CallIdtokenNewClient Api2Url] in
     case idtoken_new_client env Api2Url of
       Some err \<Rightarrow> (Panic PanicNilDeref, http_error (''idtoken.NewClient failed...: '' @ err) 500 w, calls1)
     | None \<Rightarrow>
         (let calls2 = calls1 @ [CallProxyDo Api2Url (proxy_header tok)] in
          case client_do env Api2Url (proxy_header tok) of
            Inl err \<Rightarrow> (Fatal FatalProxyDo, w, calls2)
          | Inr body \<Rightarrow> (Ret (), write_body (body @ nl) (write_header 200 w), calls2)))"
proof -
  obtain calls0 where "verify_token env tok = (Ret b, calls0)"
    using assms(2) by (metis prod.collapse)
  then show ?thesis using assms(1) by (simp add: api2_handler_def Let_def)
qed

text \<open>A failed first parse in the verifier ends api2Handler with the process, before any call.\<close>

lemma api2_first_parse_error:
  assumes "header_get (req_header r) auth_header = tok"
    and "jwt_parse env tok keyfunc_secret = Ret (tk, Some e)"
  shows "api2_handler env r w = (Fatal FatalTokenParse, w, [])"
proof -
  from assms(2) have "verify_token env tok = (Fatal FatalTokenParse, [])"
    by (rule verify_token_first_parse_error)
  with assms(1) show ?thesis by (simp add: api2_handler_def)
qed

text \<open>The proxy call of api2 is made only after the verifier returned false.\<close>

lemma api2_proxy_call_rejected:
  assumes "CallProxyDo u h \<in> set (snd (snd (api2_handler env r w)))"
  shows "fst (verify_token env (header_get (req_header r) auth_header)) = Ret False"
proof -
  let ?tok = "header_get (req_header r) auth_header"
  obtain v calls0 where vt: "verify_token env ?tok = (v, calls0)" by fastforce
  from verify_token_calls [of env ?tok] vt have c0: "CallProxyDo u h \<notin> set calls0" by auto
  show ?thesis
  proof (cases v)
    case (Ret b)
    with vt verify_token_Ret_False [of env ?tok b] show ?thesis by simp
  next
    case (Fatal f)
    with assms vt c0 show ?thesis by (simp add: api2_handler_def Let_def)
  next
    case (Panic p)
    with assms vt c0 show ?thesis by (simp add: api2_handler_def Let_def)
  qed
qed

lemma workflow_no_proxy: "CallProxyDo u h \<notin> set (snd (snd (workflow_handler env r w)))"
  by (simp add: workflow_handler_def Let_def split: option.split sum.split)

lemma sample_api2_hmac:
  "api2_handler sample_bff_env (sample_request ''h.c.s'') resp_init =
     (Ret (), write_body (sample_body @ nl) (write_header 200 resp_init),
      [CallHttpGet jwks_url, CallIdtokenNewClient Api2Url, CallProxyDo Api2Url (proxy_header ''h.c.s'')])"
  using sample_bff_verify_hmac by (simp add: api2_handler_def sample_bff_env_def)

section \<open>Properties of api2Handler\<close>

text \<open>
  C4. Authorization bypass of api2Handler: a proxy request to the second API is only
  ever issued after \<^verbatim>\<open>verifyToken\<close> returned, and it only ever returns false. Every
  request that reaches the second API is one the verifier rejected.
\<close>

theorem api2_proxy_only_after_rejection:
  assumes "api2_handler env r w = (out, w', calls)" and "CallProxyDo u h \<in> set calls"
  shows "fst (verify_token env (header_get (req_header r) auth_header)) = Ret False"
  using assms api2_proxy_call_rejected [of u h env r w] by simp

text \<open>
  C6. The external calls of api2Handler come in the code's order and stop wherever the
  handler stops: the key-set fetch of the verifier, then the identity-token client, then
  the proxy request carrying the caller's token; each later call only after all earlier
  ones.
\<close>

theorem api2_call_order:
  "prefix (snd (snd (api2_handler env r w)))
     [CallHttpGet jwks_url, CallIdtokenNewClient Api2Url,
      CallProxyDo Api2Url (proxy_header (header_get (req_header r) auth_header))]"
proof -
  let ?tok = "header_get (req_header r) auth_header"
  obtain v calls0 where vt: "verify_token env ?tok = (v, calls0)" by fastforce
  have c0: "calls0 = [] \<or> calls0 = [CallHttpGet jwks_url]" using verify_token_calls [of env ?tok] vt by simp
  show ?thesis
  proof (cases v)
    case (Ret b)
    with vt verify_token_cases [of env ?tok] have "calls0 = [CallHttpGet jwks_url]" by auto
    with vt Ret show ?thesis by (auto simp: api2_handler_def Let_def split: option.split sum.split)
  next
    case (Fatal f)
    with vt c0 show ?thesis by (auto simp: api2_handler_def)
  next
    case (Panic p)
    with vt c0 show ?thesis by (auto simp: api2_handler_def)
  qed
qed

text \<open>
  C7. A token the verifier rejects is forwarded anyway: when \<^verbatim>\<open>verifyToken\<close> returns
  false and the collaborators work, api2Handler sends the token in the
  \<^verbatim>\<open>Auth0-Token\<close> header to the second API and relays its body with status 200.
\<close>

theorem api2_forwards_rejected_token:
  assumes "header_get (req_header r) auth_header = tok"
    and "verify_token env tok = (Ret False, calls0)"
    and "idtoken_new_client env Api2Url = None"
    and "client_do env Api2Url (proxy_header tok) = Inr body"
  shows "api2_handler env r w =
           (Ret (), write_body (body @ nl) (write_header 200 w),
            calls0 @ [CallIdtokenNewClient Api2Url, CallProxyDo Api2Url (proxy_header tok)])"
  using assms by (simp add: api2_handler_def Let_def)

text \<open>
  C9. An api2 request carrying a token whose method is not HMAC, such as any RS256 token
  of the identity provider, ends the whole server process in the verifier: no response
  is written and neither the key set nor the second API is contacted.
\<close>

theorem api2_non_hmac_token_exits:
  assumes "header_get (req_header r) auth_header = tok"
    and "parse_unverified env tok = (Some t, None)" and "tok_method t = Some m"
    and "family m \<noteq> FamHMAC"
  shows "api2_handler env r w = (Fatal FatalTokenParse, w, [])"
proof -
  from first_parse_non_hmac [OF assms(2-4)] obtain tk e where
    "jwt_parse env tok keyfunc_secret = Ret (tk, Some e)" by blast
  with assms(1) show ?thesis by (rule api2_first_parse_error)
qed

text \<open>
  C14. A request without the \<^verbatim>\<open>X-Forwarded-Authorization\<close> header is not answered
  unauthorized: the empty token reaches the verifier, whose first parse fails, and the
  process exits without any network call.
\<close>

theorem api2_missing_header_exits:
  assumes "req_header r auth_header = None"
  shows "api2_handler env r w = (Fatal FatalTokenParse, w, [])"
  using assms by (simp add: api2_handler_def header_get_absent verify_token_empty_token)

text \<open>
  C15. A failed \<^verbatim>\<open>idtoken.NewClient\<close> is answered 500 but the handler goes on
  (line 161 has no return): \<^verbatim>\<open>client.Do\<close> runs on the nil client and panics, so
  the connection is dropped and the second API is never called.
\<close>

theorem api2_idtoken_failure_panics:
  assumes "header_get (req_header r) auth_header = tok" and "fst (verify_token env tok) = Ret b"
    and "idtoken_new_client env Api2Url = Some err"
  shows "api2_handler env r w =
           (Panic PanicNilDeref, http_error (''idtoken.NewClient failed...: '' @ err) 500 w,
            snd (verify_token env tok) @ [CallIdtokenNewClient Api2Url])"
  using assms(3) by (simp add: api2_after_verify [OF assms(1,2)])

text \<open>
  C16. A transport error of the proxy call is not answered with a server error: the
  handler calls \<^verbatim>\<open>log.Fatalf\<close> (line 167) and the process ends, with nothing written
  on the response.
\<close>

theorem api2_proxy_transport_fatal:
  assumes "header_get (req_header r) auth_header = tok" and "fst (verify_token env tok) = Ret b"
    and "idtoken_new_client env Api2Url = None" and "client_do env Api2Url (proxy_header tok) = Inl err"
  shows "api2_handler env r w =
           (Fatal FatalProxyDo, w,
            snd (verify_token env tok) @ [CallIdtokenNewClient Api2Url, CallProxyDo Api2Url (proxy_header tok)])"
  using assms(3,4) by (simp add: api2_after_verify [OF assms(1,2)])

text \<open>
  C5. There is no rejection path in api2Handler: whenever it returns normally, the key
  set was fetched, the identity-token client was built and the caller's token was sent
  to the second API, and the answer is status 200 with that API's body.
\<close>

theorem api2_ret_relays:
  assumes "api2_handler env r resp_init = (Ret u, w, cs)"
  shows "\<exists>body. client_do env Api2Url (proxy_header (header_get (req_header r) auth_header)) = Inr body \<and>
    final_status w = 200 \<and> resp_body w = body @ nl \<and>
    cs = [CallHttpGet jwks_url, CallIdtokenNewClient Api2Url,
          CallProxyDo Api2Url (proxy_header (header_get (req_header r) auth_header))]"
proof -
  let ?tok = "header_get (req_header r) auth_header"
  obtain v calls0 where vt: "verify_token env ?tok = (v, calls0)" by (metis surj_pair)
  obtain b where b: "v = Ret b"
    using assms vt by (cases v) (simp_all add: api2_handler_def Let_def)
  with vt have c0: "calls0 = [CallHttpGet jwks_url]"
    using verify_token_cases [of env ?tok] by auto
  from b vt have "fst (verify_token env ?tok) = Ret b" by simp
  from assms [unfolded api2_after_verify [OF refl this]] vt c0 show ?thesis
    by (auto simp: Let_def final_status_def resp_init_def write_header_def split: option.splits sum.splits)
qed

section \<open>Properties of workflowHandler\<close>

text \<open>
  C28. For a token without double quotes and backslashes, the execution argument is the
  JSON object with the single member \<^verbatim>\<open>auth0-token\<close> holding the token.
\<close>

theorem workflow_argument_roundtrip:
  assumes "CHR 0x22 \<notin> set tok" and "CHR 0x5C \<notin> set tok"
  shows "json_flat_object (workflow_argument tok) = Some [(''auth0-token'', tok)]"
  using assms by (simp add: json_flat_object_def workflow_argument_split)

text \<open>
  C12. JSON injection in the execution argument (line 140): a caller-chosen header value
  with double quotes adds members of its choice to the argument of the workflow
  execution.
\<close>

theorem workflow_argument_injection:
  assumes "CHR 0x22 \<notin> set a" "CHR 0x22 \<notin> set k" "CHR 0x22 \<notin> set v"
    and "CHR 0x5C \<notin> set a" "CHR 0x5C \<notin> set k" "CHR 0x5C \<notin> set v"
  shows "json_flat_object (workflow_argument (a @ [CHR 0x22, CHR '','', CHR 0x22] @ k @ [CHR 0x22, CHR '':'', CHR 0x22] @ v))
           = Some [(''auth0-token'', a), (k, v)]"
proof -
  have "workflow_argument (a @ [CHR 0x22, CHR '','', CHR 0x22] @ k @ [CHR 0x22, CHR '':'', CHR 0x22] @ v)
      = join_with (CHR 0x22) [''{'', ''auth0-token'', '':'', a, '','', k, '':'', v, ''}'']"
    by (simp add: workflow_argument_def)
  then have "split_on (CHR 0x22) (workflow_argument (a @ [CHR 0x22, CHR '','', CHR 0x22] @ k @ [CHR 0x22, CHR '':'', CHR 0x22] @ v))
      = [''{'', ''auth0-token'', '':'', a, '','', k, '':'', v, ''}'']"
    unfolding \<open>workflow_argument _ = _\<close> using assms(1-3) by (intro split_join_with) simp_all
  then show ?thesis using assms(4-6) by (simp add: json_flat_object_def)
qed

text \<open>
  C10. workflowHandler never authenticates: for every request, with or without a token,
  once the executions client exists an execution is created with the token pasted into
  its argument, and no key set is ever fetched.
\<close>

theorem workflow_handler_unauthenticated:
  assumes "exec_new_client env = None"
  shows "CallCreateExecution workflow_parent (workflow_argument (header_get (req_header r) auth_header))
           \<in> set (snd (snd (workflow_handler env r w)))
         \<and> (\<forall>u. CallHttpGet u \<notin> set (snd (snd (workflow_handler env r w))))"
  using assms by (auto simp: workflow_handler_def Let_def split: sum.split)

text \<open>
  C26. When the executions client cannot be built, workflowHandler answers 500 with the
  error text and returns (line 132): no execution is created.
\<close>

theorem workflow_new_client_error:
  assumes "resp_committed w = None" and "exec_new_client env = Some err"
  shows "final_status (fst (snd (workflow_handler env r w))) = 500
    \<and> resp_body (fst (snd (workflow_handler env r w))) = resp_body w @ ''executions.NewClient failed...: '' @ err @ nl
    \<and> snd (snd (workflow_handler env r w)) = [CallExecNewClient]"
proof -
  let ?w1 = "http_error (''executions.NewClient failed...: '' @ err) 500 w"
  from assms(1) obtain h where "resp_committed ?w1 = Some (500, h)"
    using http_error_simps(3) by blast
  with assms show ?thesis
    by (simp add: workflow_handler_def Let_def final_status_def http_error_simps(1))
qed

text \<open>
  C25. When \<^verbatim>\<open>CreateExecution\<close> fails, the handler does not return after
  \<^verbatim>\<open>http.Error\<close>: the status stays 500 (the later \<^verbatim>\<open>WriteHeader(200)\<close> is
  superfluous) and the body is the error text followed by the printed nil execution.
\<close>

theorem workflow_create_error_response:
  assumes "resp_committed w = None" and "exec_new_client env = None"
    and "create_execution env workflow_parent (workflow_argument (header_get (req_header r) auth_header)) = Inl err"
  shows "final_status (fst (snd (workflow_handler env r w))) = 500 \<and>
         resp_body (fst (snd (workflow_handler env r w))) =
           resp_body w @ ''client.CreateExecution failed...: '' @ err @ nl @ ''<nil>'' @ nl"
proof -
  let ?w1 = "http_error (''client.CreateExecution failed...: '' @ err) 500 w"
  from assms(1) obtain h where c1: "resp_committed ?w1 = Some (500, h)"
    using http_error_simps(3) by blast
  with assms show ?thesis
    by (simp add: workflow_handler_def Let_def final_status_def http_error_simps(1))
qed

text \<open>
  C11. When both collaborators work, workflowHandler creates one execution of the
  configured workflow (line 138: project \<^verbatim>\<open>kaigofika-poc01\<close>, location
  \<^verbatim>\<open>us-central1\<close>, workflow \<^verbatim>\<open>fs-workflow-nakagome\<close>) with the token in its
  argument, and answers 200 with the execution printed on one line.
\<close>

theorem workflow_execution_created:
  assumes "resp_committed w = None" and "exec_new_client env = None"
    and "create_execution env workflow_parent (workflow_argument (header_get (req_header r) auth_header)) = Inr exec"
  shows "final_status (fst (snd (workflow_handler env r w))) = 200 \<and>
    resp_body (fst (snd (workflow_handler env r w))) = resp_body w @ exec @ nl \<and>
    snd (snd (workflow_handler env r w)) =
      [CallExecNewClient,
       CallCreateExecution ''projects/kaigofika-poc01/locations/us-central1/workflows/fs-workflow-nakagome''
         (workflow_argument (header_get (req_header r) auth_header))]"
proof -
  have p: "workflow_parent = ''projects/kaigofika-poc01/locations/us-central1/workflows/fs-workflow-nakagome''"
    by (simp add: workflow_parent_def ProjectId_def Location_def workflowName_def)
  from assms show ?thesis
    by (simp add: workflow_handler_def Let_def final_status_def write_header_def p)
qed

section \<open>Witnesses on the sample environment\<close>

theorem api2_proxy_only_after_rejection_witness:
  "api2_handler sample_bff_env (sample_request ''h.c.s'') resp_init =
     (Ret (), write_body (sample_body @ nl) (write_header 200 resp_init),
      [CallHttpGet jwks_url, CallIdtokenNewClient Api2Url, CallProxyDo Api2Url (proxy_header ''h.c.s'')])
   \<and> CallProxyDo Api2Url (proxy_header ''h.c.s'') \<in>
       set [CallHttpGet jwks_url, CallIdtokenNewClient Api2Url, CallProxyDo Api2Url (proxy_header ''h.c.s'')]
   \<and> fst (verify_token sample_bff_env (header_get (req_header (sample_request ''h.c.s'')) auth_header)) = Ret False"
proof -
  let ?calls = "[CallHttpGet jwks_url, CallIdtokenNewClient Api2Url, CallProxyDo Api2Url (proxy_header ''h.c.s'')]"
  have c: "CallProxyDo Api2Url (proxy_header ''h.c.s'') \<in> set ?calls" by simp
  show ?thesis using sample_api2_hmac c api2_proxy_only_after_rejection [OF sample_api2_hmac c] by simp
qed

theorem api2_forwards_rejected_token_witness:
  "api2_handler sample_bff_env (sample_request ''h.c.s'') resp_init =
     (Ret (), write_body (sample_body @ nl) (write_header 200 resp_init),
      [CallHttpGet jwks_url] @ [CallIdtokenNewClient Api2Url, CallProxyDo Api2Url (proxy_header ''h.c.s'')])"
proof -
  have v: "verify_token sample_bff_env ''h.c.s'' = (Ret False, [CallHttpGet jwks_url])"
    by (rule sample_bff_verify_hmac)
  have i: "idtoken_new_client sample_bff_env Api2Url = None" by (simp add: sample_bff_env_def)
  have d: "client_do sample_bff_env Api2Url (proxy_header ''h.c.s'') = Inr sample_body"
    by (simp add: sample_bff_env_def)
  show ?thesis by (rule api2_forwards_rejected_token [OF header_get_sample v i d])
qed

theorem api2_non_hmac_token_exits_witness:
  "api2_handler sample_bff_env (sample_request ''r.c.s'') resp_init = (Fatal FatalTokenParse, resp_init, [])"
proof -
  let ?t = "\<lparr>tok_raw = ''r.c.s'', tok_header = [''alg'' \<mapsto> JStr ''RS256'', ''kid'' \<mapsto> JStr ''k1''],
     tok_claims = Map.empty, tok_method = Some RS256, tok_signature = [], tok_valid = False\<rparr>"
  have pu: "parse_unverified sample_bff_env ''r.c.s'' = (Some ?t, None)"
    by (simp add: parse_unverified_def get_signing_method_def sample_bff_env_def sample_env_def)
  have m: "tok_method ?t = Some RS256" by simp
  have f: "family RS256 \<noteq> FamHMAC" by simp
  show ?thesis by (rule api2_non_hmac_token_exits [OF header_get_sample pu m f])
qed

theorem api2_missing_header_exits_witness:
  "req_header \<lparr>req_method = ''GET'', req_path = ''/api2'', req_header = Map.empty\<rparr> auth_header = None
   \<and> api2_handler sample_bff_env \<lparr>req_method = ''GET'', req_path = ''/api2'', req_header = Map.empty\<rparr> resp_init
       = (Fatal FatalTokenParse, resp_init, [])"
proof -
  have h: "req_header \<lparr>req_method = ''GET'', req_path = ''/api2'', req_header = Map.empty\<rparr> auth_header = None" by simp
  show ?thesis using h api2_missing_header_exits [OF h] by blast
qed

theorem workflow_handler_unauthenticated_witness:
  "CallCreateExecution workflow_parent (workflow_argument [])
     \<in> set (snd (snd (workflow_handler sample_bff_env \<lparr>req_method = ''GET'', req_path = ''/workflow'', req_header = Map.empty\<rparr> resp_init)))"
proof -
  have e: "exec_new_client sample_bff_env = None" by (simp add: sample_bff_env_def)
  show ?thesis
    using workflow_handler_unauthenticated [OF e, of "\<lparr>req_method = ''GET'', req_path = ''/workflow'', req_header = Map.empty\<rparr>" resp_init]
    by (simp add: header_get_def)
qed

theorem workflow_create_error_response_witness:
  "final_status (fst (snd (workflow_handler
       (sample_bff_env\<lparr>create_execution := (\<lambda>p a. Inl ''denied'')\<rparr>) (sample_request ''t'') resp_init))) = 500"
proof -
  let ?env = "sample_bff_env\<lparr>create_execution := (\<lambda>p a. Inl ''denied'')\<rparr>"
  have c: "resp_committed resp_init = None" by (simp add: resp_init_def)
  have e: "exec_new_client ?env = None" by (simp add: sample_bff_env_def)
  have x: "create_execution ?env workflow_parent
      (workflow_argument (header_get (req_header (sample_request ''t'')) auth_header)) = Inl ''denied''"
    by simp
  show ?thesis using workflow_create_error_response [OF c e x] by blast
qed

theorem api2_idtoken_failure_panics_witness:
  "api2_handler (sample_bff_env\<lparr>idtoken_new_client := (\<lambda>a. Some ''no credentials'')\<rparr>)
     (sample_request ''h.c.s'') resp_init =
   (Panic PanicNilDeref, http_error (''idtoken.NewClient failed...: '' @ ''no credentials'') 500 resp_init,
    [CallHttpGet jwks_url, CallIdtokenNewClient Api2Url])"
proof -
  let ?env = "sample_bff_env\<lparr>idtoken_new_client := (\<lambda>a. Some ''no credentials'')\<rparr>"
  have v: "verify_token ?env ''h.c.s'' = (Ret False, [CallHttpGet jwks_url])"
    using sample_bff_verify_hmac_upd [where f = "\<lambda>a. Some ''no credentials''" and g = "client_do sample_bff_env"]
    by simp
  have v1: "fst (verify_token ?env ''h.c.s'') = Ret False" using v by simp
  have i: "idtoken_new_client ?env Api2Url = Some ''no credentials''" by simp
  show ?thesis using api2_idtoken_failure_panics [OF header_get_sample v1 i, of resp_init] v by simp
qed

theorem api2_proxy_transport_fatal_witness:
  "api2_handler (sample_bff_env\<lparr>idtoken_new_client := (\<lambda>a. None), client_do := (\<lambda>u h. Inl ''connection refused'')\<rparr>)
     (sample_request ''h.c.s'') resp_init =
   (Fatal FatalProxyDo, resp_init,
    [CallHttpGet jwks_url, CallIdtokenNewClient Api2Url, CallProxyDo Api2Url (proxy_header ''h.c.s'')])"
proof -
  let ?env = "sample_bff_env\<lparr>idtoken_new_client := (\<lambda>a. None), client_do := (\<lambda>u h. Inl ''connection refused'')\<rparr>"
  have v: "verify_token ?env ''h.c.s'' = (Ret False, [CallHttpGet jwks_url])" by (rule sample_bff_verify_hmac_upd)
  have v1: "fst (verify_token ?env ''h.c.s'') = Ret False" using v by simp
  have i: "idtoken_new_client ?env Api2Url = None" by simp
  have d: "client_do ?env Api2Url (proxy_header ''h.c.s'') = Inl ''connection refused''" by simp
  show ?thesis using api2_proxy_transport_fatal [OF header_get_sample v1 i d, of resp_init] v by simp
qed

theorem workflow_argument_roundtrip_witness:
  "json_flat_object (workflow_argument ''eyJ.abc.xyz'') = Some [(''auth0-token'', ''eyJ.abc.xyz'')]"
  by (rule workflow_argument_roundtrip) simp_all

theorem workflow_argument_injection_witness:
  "json_flat_object (workflow_argument (''x'' @ [CHR 0x22, CHR '','', CHR 0x22] @ ''admin'' @ [CHR 0x22, CHR '':'', CHR 0x22] @ ''1''))
     = Some [(''auth0-token'', ''x''), (''admin'', ''1'')]"
  by (rule workflow_argument_injection) simp_all

theorem workflow_new_client_error_witness:
  "final_status (fst (snd (workflow_handler (sample_bff_env\<lparr>exec_new_client := Some ''no credentials''\<rparr>)
      (sample_request ''t'') resp_init))) = 500"
proof -
  have c: "resp_committed resp_init = None" by (simp add: resp_init_def)
  have e: "exec_new_client (sample_bff_env\<lparr>exec_new_client := Some ''no credentials''\<rparr>) = Some ''no credentials''"
    by simp
  show ?thesis using workflow_new_client_error [OF c e] by blast
qed


theorem api2_ret_relays_witness:
  "\<exists>body. client_do sample_bff_env Api2Url (proxy_header ''h.c.s'') = Inr body \<and>
     final_status (write_body (sample_body @ nl) (write_header 200 resp_init)) = 200"
  using api2_ret_relays [OF sample_api2_hmac] by simp

theorem workflow_execution_created_witness:
  "final_status (fst (snd (workflow_handler sample_bff_env (sample_request ''t'') resp_init))) = 200 \<and>
   resp_body (fst (snd (workflow_handler sample_bff_env (sample_request ''t'') resp_init))) = ''exec-1'' @ nl"
proof -
  have c: "resp_committed resp_init = None" by (simp add: resp_init_def)
  have e: "exec_new_client sample_bff_env = None" by (simp add: sample_bff_env_def)
  have x: "create_execution sample_bff_env workflow_parent
      (workflow_argument (header_get (req_header (sample_request ''t'')) auth_header)) = Inr ''exec-1''"
    by (simp add: sample_bff_env_def)
  show ?thesis using workflow_execution_created [OF c e x] by (simp add: resp_init_def)
qed

end
