(* ===== verification/Server.thy ===== *)
theory Server
  imports Handlers
begin

text \<open>
  \<^verbatim>\<open>main\<close> (lines 29--45 of \<^verbatim>\<open>src/main.go\<close>): it creates a fresh mux
  \<^verbatim>\<open>router\<close> (line 31), registers both handlers with \<^verbatim>\<open>http.HandleFunc\<close>, that
  is on \<^verbatim>\<open>http.DefaultServeMux\<close> (lines 33--34), picks the port from
  \<^verbatim>\<open>PORT\<close> with 8080 as fallback (lines 36--40) and serves \<^verbatim>\<open>router\<close>
  (line 42), on which nothing was registered.
  The server is modelled as a loop over the requests in arrival order. Requests share no
  state, so the order only matters through the process: a handler's \<^verbatim>\<open>log.Fatal\<close>
  ends it and no later request is answered; a handler's panic is recovered by net/http and
  only its own connection is dropped.
  Lemmas: every request to the program as written is answered 404, or redirected to its
  cleaned path which is answered 404, with no external call, and a redirect's target is
  itself answered 404.
\<close>

section \<open>Routes, registration and the port\<close>

datatype route = RouteWorkflow | RouteApi2

text \<open>Lines 33--34 on the initially empty \<^verbatim>\<open>DefaultServeMux\<close>.\<close>

definition register_default :: "route serve_mux go" where
  "register_default =
     go_bind (mux_handle [] ''/workflow'' RouteWorkflow) (\<lambda>m. mux_handle m ''/api2'' RouteApi2)"

text \<open>Line 31: \<^verbatim>\<open>router := http.NewServeMux()\<close>, never registered on.\<close>

definition router :: "route serve_mux" where
  "router = []"

text \<open>Lines 36--40 and 42: the listen address from the \<^verbatim>\<open>PORT\<close> variable.\<close>

definition listen_port :: "string \<Rightarrow> string" where
  "listen_port p = (if p = [] then ''8080'' else p)"

definition listen_addr :: "string \<Rightarrow> string" where
  "listen_addr p = '':'' @ listen_port p"

section \<open>Serving\<close>

definition run_route ::
  "('pk, 'e) bff_env_scheme \<Rightarrow> route \<Rightarrow> http_request \<Rightarrow> response \<Rightarrow> handler_result" where
  "run_route env rt r w =
     (case rt of RouteWorkflow \<Rightarrow> workflow_handler env r w | RouteApi2 \<Rightarrow> api2_handler env r w)"

text \<open>
  One request on a mux (\<^verbatim>\<open>ServeMux.ServeHTTP\<close>): the matched handler on a fresh
  writer, the redirect to the cleaned path, or \<^verbatim>\<open>http.NotFound\<close>.
\<close>

definition serve_request ::
  "('pk, 'e) bff_env_scheme \<Rightarrow> route serve_mux \<Rightarrow> http_request \<Rightarrow> handler_result" where
  "serve_request env mux r =
     (case mux_find mux r of
        MuxHandler rt \<Rightarrow> run_route env rt r resp_init
      | MuxRedirect p \<Rightarrow> (Ret (), redirect_moved (req_method r) p resp_init, [])
      | MuxNotFound \<Rightarrow> (Ret (), not_found resp_init, []))"

text \<open>What a client gets: a status and body, a dropped connection, or nothing at all.\<close>

datatype answer = Answered nat string | Dropped | Unserved

fun serve_all ::
  "('pk, 'e) bff_env_scheme \<Rightarrow> route serve_mux \<Rightarrow> http_request list \<Rightarrow> answer list \<times> ext_call list" where
  "serve_all env mux [] = ([], [])"
| "serve_all env mux (r # rs) =
     (case serve_request env mux r of
        (Ret u, w, calls) \<Rightarrow>
          (let (as, cs) = serve_all env mux rs in (Answered (final_status w) (resp_body w) # as, calls @ cs))
      | (Panic p, w, calls) \<Rightarrow>
          (let (as, cs) = serve_all env mux rs in (Dropped # as, calls @ cs))
      | (Fatal f, w, calls) \<Rightarrow> (map (\<lambda>_. Unserved) (r # rs), calls))"

text \<open>
  \<^verbatim>\<open>main\<close>: the registrations, the listen address, and either the fatal exit of
  line 43 when \<^verbatim>\<open>ListenAndServe\<close> fails or the service of \<^verbatim>\<open>router\<close>.
\<close>

definition main_run ::
  "('pk, 'e) bff_env_scheme \<Rightarrow> string \<Rightarrow> bool \<Rightarrow> http_request list
   \<Rightarrow> string \<times> (answer list \<times> ext_call list) go" where
  "main_run env port listen_fails reqs =
     (listen_addr port,
      go_bind register_default
        (\<lambda>dm. if listen_fails then Fatal FatalListen else Ret (serve_all env router reqs)))"

section \<open>Lemmas on serving\<close>

lemma register_default_eq:
  "register_default = Ret [(''/workflow'', RouteWorkflow), (''/api2'', RouteApi2)]"
  by (simp add: register_default_def mux_handle_def)

abbreviation redirected :: "http_request \<Rightarrow> bool" where
  "redirected r \<equiv> req_method r \<noteq> ''CONNECT'' \<and> clean_path (req_path r) \<noteq> req_path r"

lemma serve_request_router:
  "serve_request env router r =
     (Ret (), if redirected r then redirect_moved (req_method r) (clean_path (req_path r)) resp_init
              else not_found resp_init, [])"
  by (simp add: serve_request_def mux_find_def mux_match_path_def router_def mux_lookup_def Let_def)

lemma location_content_type:
  "canonical_header_key ''Location'' \<noteq> canonical_header_key ''Content-Type''"
  by code_simp

lemma redirect_moved_init:
  "final_status (redirect_moved m u resp_init) = 301"
  "resp_body (redirect_moved m u resp_init) = (if m = ''GET'' then redirect_body (clean_path u) else [])"
  "header_get (resp_header (redirect_moved m u resp_init)) ''Location'' = clean_path u"
  by (simp_all add: redirect_moved_def Let_def http_defs location_content_type)

lemma not_found_init:
  "final_status (not_found resp_init) = 404 \<and> resp_body (not_found resp_init) = ''404 page not found'' @ nl"
  by (simp add: not_found_def http_error_def resp_committed_write_header final_status_def resp_init_def)

lemma serve_all_router:
  "serve_all env router rs =
     (map (\<lambda>r. if redirected r
               then Answered 301 (if req_method r = ''GET'' then redirect_body (clean_path (req_path r)) else [])
               else Answered 404 (''404 page not found'' @ nl)) rs, [])"
  by (induction rs) (simp_all add: serve_request_router not_found_init redirect_moved_init)

lemma clean_path_api2: "clean_path ''/api2'' = ''/api2''"
  by code_simp

section \<open>Properties of the server\<close>

text \<open>
  C1. The program as written serves a mux with no routes: whatever the port, the
  environment and the requests, once listening succeeds no handler, no verifier and no
  collaborator is ever invoked. A request is answered \<^verbatim>\<open>404 page not found\<close>,
  unless its path is not clean (and it is not a \<^verbatim>\<open>CONNECT\<close>), when it is answered
  with a 301 redirect to the cleaned path.
\<close>

theorem main_run_not_found:
  "main_run env port False reqs =
     (listen_addr port,
      Ret (map (\<lambda>r. if req_method r \<noteq> ''CONNECT'' \<and> clean_path (req_path r) \<noteq> req_path r
                    then Answered 301 (if req_method r = ''GET'' then redirect_body (clean_path (req_path r)) else [])
                    else Answered 404 (''404 page not found'' @ nl)) reqs, []))"
  by (simp add: main_run_def register_default_eq serve_all_router)

text \<open>
  C27. A redirect does not lead anywhere either: a request the server as written redirects
  gets status 301 with the cleaned path as \<^verbatim>\<open>Location\<close> and no external call, and the
  same request sent to that location is answered \<^verbatim>\<open>404 page not found\<close>.
\<close>

theorem router_redirect_not_found:
  assumes "req_method r \<noteq> ''CONNECT''" and "clean_path (req_path r) \<noteq> req_path r"
  shows "fst (serve_request env router r) = Ret () \<and> snd (snd (serve_request env router r)) = []
    \<and> final_status (fst (snd (serve_request env router r))) = 301
    \<and> serve_request env router
         (r\<lparr>req_path := header_get (resp_header (fst (snd (serve_request env router r)))) ''Location''\<rparr>)
       = (Ret (), not_found resp_init, [])"
  using assms by (simp add: serve_request_router redirect_moved_init)

section \<open>Witnesses\<close>

theorem router_redirect_not_found_witness:
  "fst (serve_request sample_bff_env router (sample_request ''t''\<lparr>req_path := ''//api2''\<rparr>)) = Ret ()
   \<and> snd (snd (serve_request sample_bff_env router (sample_request ''t''\<lparr>req_path := ''//api2''\<rparr>))) = []
   \<and> final_status (fst (snd (serve_request sample_bff_env router (sample_request ''t''\<lparr>req_path := ''//api2''\<rparr>)))) = 301
   \<and> serve_request sample_bff_env router
        (sample_request ''t''\<lparr>req_path := header_get (resp_header (fst (snd (serve_request sample_bff_env router
           (sample_request ''t''\<lparr>req_path := ''//api2''\<rparr>))))) ''Location''\<rparr>)
      = (Ret (), not_found resp_init, [])"
proof -
  have m: "req_method (sample_request ''t''\<lparr>req_path := ''//api2''\<rparr>) \<noteq> ''CONNECT''"
    by (simp add: sample_request_def)
  have c: "clean_path (req_path (sample_request ''t''\<lparr>req_path := ''//api2''\<rparr>))
      \<noteq> req_path (sample_request ''t''\<lparr>req_path := ''//api2''\<rparr>)"
    by code_simp
  show ?thesis using router_redirect_not_found [OF m c] by simp
qed

end
