(* ===== verification/Spec2Isabelle.thy ===== *)
theory Spec2Isabelle
  imports Server
begin

text \<open>
  \<^bold>\<open>A verification model of fika-bff (\<^verbatim>\<open>src/main.go\<close>).\<close>

  The program is a backend-for-frontend in one Go file. \<^verbatim>\<open>main\<close> registers two
  handlers, \<^verbatim>\<open>workflowHandler\<close> (route \<^verbatim>\<open>/workflow\<close>: start a Google Workflows
  execution carrying the caller's token) and \<^verbatim>\<open>api2Handler\<close> (route \<^verbatim>\<open>/api2\<close>:
  verify the token, then proxy a GET to a second API with the token in an
  \<^verbatim>\<open>auth0-token\<close> header), and listens on \<^verbatim>\<open>PORT\<close>. \<^verbatim>\<open>verifyToken\<close> parses
  the token with jwt-go, fetches the identity provider's key set (JWKS), picks the
  certificate of the token's \<^verbatim>\<open>kid\<close>, and parses the token again against the
  certificate's RSA key. The components interact by plain calls; the only state is the
  per-request response writer and the process itself, which \<^verbatim>\<open>log.Fatal\<close> ends.

  \<^bold>\<open>Theories, leaves first.\<close>
  \<^item> \<open>Prelude\<close>: the outcome type \<open>'a go\<close> (\<open>Ret\<close>, \<open>Fatal\<close> at a named
    \<^verbatim>\<open>log.Fatal\<close> call site, \<open>Panic\<close>), its sequencing \<open>go_bind\<close>, the trace of
    external calls \<open>ext_call\<close>, and \<^verbatim>\<open>strings.Split\<close>/\<^verbatim>\<open>strings.Join\<close>
    (\<open>split_on\<close>, \<open>join_with\<close>) with both round trips.
  \<^item> \<open>Jwks\<close>: the \<^verbatim>\<open>Jwks\<close>/\<^verbatim>\<open>JSONWebKeys\<close> types as records, the key-set
    fetch of lines 72--86 (\<open>fetch_jwks\<close>), the key loop of lines 87--91
    (\<open>resolve_loop\<close>, with \<^verbatim>\<open>cert\<close> as its state) and the empty-certificate exit
    of lines 92--94 (\<open>resolve_cert\<close>); the first-match contract of the key directory
    (\<open>resolve_spec\<close>) with its abstraction \<open>abs_resolve\<close>.
  \<^item> \<open>Jwt_Lib\<close>: the jwt-go behaviour \<^verbatim>\<open>verifyToken\<close> relies on: the method
    registry, the key type each method family accepts (\<open>method_verify\<close>),
    \<^verbatim>\<open>ParseUnverified\<close> and \<^verbatim>\<open>jwt.Parse\<close> (\<open>parse_unverified\<close>,
    \<open>jwt_parse\<close>).
  \<^item> \<open>Jwt_Claims\<close>: jwt-go's \<^verbatim>\<open>MapClaims.Valid\<close> (the \<^verbatim>\<open>exp\<close>,
    \<^verbatim>\<open>iat\<close> and \<^verbatim>\<open>nbf\<close> checks against the current Unix time) and the
    \<^verbatim>\<open>uint32\<close> flags of \<^verbatim>\<open>ValidationError\<close> as \<open>32 word\<close>s.
  \<^item> \<open>Verify\<close>: \<^verbatim>\<open>verifyToken\<close> (lines 61--119) as \<open>verify_token\<close>, with the
    two key functions \<open>keyfunc_secret\<close> (lines 64--66) and \<open>keyfunc_rsa\<close>
    (lines 100--107) and the second parse \<open>second_parse\<close>; it returns the outcome and
    the calls made.
  \<^item> \<open>Paths\<close>: the URL-path cleaning \<^verbatim>\<open>ServeMux\<close> applies before matching
    (\<^verbatim>\<open>cleanPath\<close>, the element loop of \<^verbatim>\<open>path.Clean\<close>: \<open>clean_path\<close>), with
    the shape of a cleaned path and idempotence, which the redirect property uses.
  \<^item> \<open>Http\<close>: the net/http behaviour used: header-name canonicalisation,
    \<^verbatim>\<open>Header.Get/Set\<close>, the \<^verbatim>\<open>ResponseWriter\<close> (\<open>response\<close>: first
    \<^verbatim>\<open>WriteHeader\<close> wins, \<^verbatim>\<open>Write\<close> commits 200), \<^verbatim>\<open>http.Error\<close>,
    \<^verbatim>\<open>http.Redirect\<close> (\<open>redirect_moved\<close>) and \<^verbatim>\<open>ServeMux.Handler\<close>
    (\<open>mux_find\<close>: redirect of an unclean path, exact-path match, not found).
  \<^item> \<open>Handlers\<close>: \<open>workflow_handler\<close> (lines 122--150) and \<open>api2_handler\<close>
    (lines 153--175) over an environment \<open>bff_env\<close>; each returns its outcome, the
    response writer and its external calls.
  \<^item> \<open>Server\<close>: \<^verbatim>\<open>main\<close> (lines 29--45) as \<open>main_run\<close>: registration on
    \<^verbatim>\<open>DefaultServeMux\<close> (\<open>register_default\<close>), the served mux \<open>router\<close>, the port
    fallback, and \<open>serve_all\<close>, requests in arrival order until a \<open>Fatal\<close> ends the
    process.

  \<^bold>\<open>Correspondence with the code.\<close> Every Go function is one HOL definition of the same
  shape: sequential statements are nested \<open>case\<close>s on outcomes, the
  \<^verbatim>\<open>for range\<close> loop is structural recursion over the key list, Go's
  \<^verbatim>\<open>interface{} == string\<close> is \<open>iface_eq_str\<close>, \<^verbatim>\<open>X5c[0]\<close> on an empty
  slice and a method call on a nil pointer are \<open>Panic\<close>s, each \<^verbatim>\<open>log.Fatal\<close>
  is a \<open>Fatal\<close> tagged with its line. Remote services, cryptography, base64url and
  JSON decoding are fields of an environment record (\<open>fetch_env\<close>, extended by
  \<open>jwt_env\<close>, extended by \<open>bff_env\<close>); every theorem quantifies over all
  environments unless it names the sample one. All definitions are executable: the
  witnesses evaluate them on a sample environment by \<open>simp\<close> and \<open>code_simp\<close>. No
  loop of the program can diverge (the only loop walks a finite list), so no fuel or
  partial functions are needed; the server loop consumes a finite list of requests.
  Library code (jwt-go, net/http) is modelled only as far as the program's behaviour
  depends on it, and every property is stated of the program's functions.

  \<^bold>\<open>What the theorems show\<close> (claims C1--C28: C23 below, the others in the component theories):
  \<^item> the program as written serves an empty mux: every request is answered 404, or 301
    to its cleaned path, which is answered 404 in turn, with no external call
    (\<open>Server\<close>);
  \<^item> \<^verbatim>\<open>verifyToken\<close> never returns true, and returns at all (false) exactly when
    the first parse, the key-set fetch and the key resolution succeeded; any non-HMAC
    token (every RS256 token) ends the process at line 68 before any network call; the key
    fetch happens at most once and only after the first parse; a key set that fails to
    decode does not stop it; a well-signed HMAC token ends the process at line 68 exactly
    when one of its time claims fails, with the exact boundaries of jwt-go's checks
    (\<open>Verify\<close>, and C23 in this theory);
  \<^item> \<^verbatim>\<open>api2Handler\<close> makes its external calls in the code's order (key set,
    identity-token client, proxy) and stops where it stops; it proxies exactly the
    requests the verifier rejected and relays them with 200; it has no rejection path,
    since every normal return is such a relay; it exits the process on an RS256 token, a
    missing header or a failed proxy call, and panics on the nil client when the
    identity-token client cannot be built (\<open>Handlers\<close>);
  \<^item> \<^verbatim>\<open>workflowHandler\<close> starts an execution of the configured workflow for every
    request without any verification and answers 200 with it; a token with double quotes
    adds members of its choice to the execution's JSON argument, while a token without
    them reads back from it; a failed client is answered 500 without an execution, and a
    failed execution keeps status 500 with a trailing \<^verbatim>\<open><nil>\<close>
    (\<open>Handlers\<close>);
  \<^item> the resolver refines the first-match contract when key identifiers are unique, but
    returns the last match in general, panics on an empty chain, and never matches a
    token without \<^verbatim>\<open>kid\<close> (\<open>Jwks\<close>).

  \<^bold>\<open>Not modelled.\<close> Logging other than \<^verbatim>\<open>log.Fatal\<close>; timeouts and
  cancellation (there are none in the code); the remote services' behaviour beyond their
  results; content sniffing, connection reuse, the \<^verbatim>\<open>RequestURI == "*"\<close> case and
  the percent-escaping of redirect targets in net/http (request paths are taken to need no
  escaping); line 98, which
  calls a three-argument method with no arguments and does not compile. Concurrent
  serving: the program as written runs no handler, and requests share no state, so the
  sequential server loop loses only the timing of a \<^verbatim>\<open>log.Fatal\<close> against
  requests in flight, which matters only for a mux main does not serve.
\<close>


section \<open>Properties across the components\<close>

text \<open>
  C23. jwt-go's claims check as \<^verbatim>\<open>verifyToken\<close> sees it: for a token whose HMAC
  signature is good, the verifier ends the process at line 68 without a key-set fetch
  exactly when \<^verbatim>\<open>exp\<close> is a nonzero number before the current Unix time, or
  \<^verbatim>\<open>iat\<close> or \<^verbatim>\<open>nbf\<close> a nonzero number after it. A claim that is absent, zero or
  not a number never stops it, and a token is still accepted at the second of its
  \<^verbatim>\<open>exp\<close>.
\<close>

theorem verify_token_time_claims_fatal_iff:
  assumes "parse_unverified env s = (Some t, None)" and "tok_method t = Some m"
    and "method_verify env m (join_with (CHR ''.'') (take 2 (split_on (CHR ''.'') s)))
           (split_on (CHR ''.'') s ! 2) (KeyBytes ''AllYourBase'') = Ret None"
  shows "verify_token env s = (Fatal FatalTokenParse, []) \<longleftrightarrow>
    (\<exists>e. tok_claims t ''exp'' = Some (JNum e) \<and> e \<noteq> 0 \<and> e < unix_now env) \<or>
    (\<exists>i. tok_claims t ''iat'' = Some (JNum i) \<and> i \<noteq> 0 \<and> unix_now env < i) \<or>
    (\<exists>n. tok_claims t ''nbf'' = Some (JNum n) \<and> n \<noteq> 0 \<and> unix_now env < n)"
proof -
  have k: "keyfunc_secret t = Inr (KeyBytes ''AllYourBase'')" by (simp add: keyfunc_secret_def)
  have v: "method_verify env (the (tok_method t)) (join_with (CHR ''.'') (take 2 (split_on (CHR ''.'') s)))
           (split_on (CHR ''.'') s ! 2) (KeyBytes ''AllYourBase'') = Ret None"
    using assms(2,3) by simp
  show ?thesis
  proof (cases "map_claims_valid (unix_now env) (tok_claims t) = 0")
    case True
    from jwt_parse_claims_valid [where kf = keyfunc_secret, OF assms(1) k True v] obtain t' where
      "jwt_parse env s keyfunc_secret = Ret (Some t', None)" by blast
    then have "snd (verify_token env s) = [CallHttpGet jwks_url]"
      by (simp add: verify_token_def Let_def split: go.split)
    with True show ?thesis by (auto simp: map_claims_valid_eq_0 claim_check_time_iffs)
  next
    case False
    from jwt_parse_claims_invalid [where kf = keyfunc_secret, OF assms(1) k False v] obtain t' f where
      "jwt_parse env s keyfunc_secret = Ret (Some t', Some (ErrValidation f None))" by blast
    then have "verify_token env s = (Fatal FatalTokenParse, [])" by (rule verify_token_first_parse_error)
    with False show ?thesis by (auto simp: map_claims_valid_eq_0 claim_check_time_iffs)
  qed
qed

section \<open>Witnesses\<close>

theorem verify_token_time_claims_fatal_iff_witness:
  "parse_unverified boundary_env ''h.c.s'' =
     (Some \<lparr>tok_raw = ''h.c.s'', tok_header = [''alg'' \<mapsto> JStr ''HS256'', ''kid'' \<mapsto> JStr ''k1''],
            tok_claims = [''exp'' \<mapsto> JNum 100], tok_method = Some HS256, tok_signature = [], tok_valid = False\<rparr>, None)
   \<and> verify_token boundary_env ''h.c.s'' \<noteq> (Fatal FatalTokenParse, [])"
proof -
  let ?t = "\<lparr>tok_raw = ''h.c.s'', tok_header = [''alg'' \<mapsto> JStr ''HS256'', ''kid'' \<mapsto> JStr ''k1''],
            tok_claims = [''exp'' \<mapsto> JNum 100], tok_method = Some HS256, tok_signature = [], tok_valid = False\<rparr>"
  have pu: "parse_unverified boundary_env ''h.c.s'' = (Some ?t, None)"
    by (simp add: boundary_env_def sample_simps)
  have m: "tok_method ?t = Some HS256" by simp
  have v: "method_verify boundary_env HS256 (join_with (CHR ''.'') (take 2 (split_on (CHR ''.'') ''h.c.s'')))
           (split_on (CHR ''.'') ''h.c.s'' ! 2) (KeyBytes ''AllYourBase'') = Ret None"
    by (simp add: boundary_env_def sample_simps method_verify.simps)
  have "verify_token boundary_env ''h.c.s'' \<noteq> (Fatal FatalTokenParse, [])"
    using verify_token_time_claims_fatal_iff [OF pu m v] by (simp add: boundary_env_def sample_env_def)
  with pu show ?thesis by simp
qed

end
